theory Spec2Isabelle
  imports Complex_Main
begin

section \<open>Exceptions\<close>

text \<open>
  The pipeline is Python over pandas. Every exception that one of the modelled
  functions can let escape is a value of \<open>py_error\<close>; a function that may raise
  returns \<open>py_error + 'a\<close> with \<open>Inl\<close> for the exception.
\<close>

datatype py_error =
    KeyError
  | AttributeError
  | ValueError
  | FileNotFoundError
  | ProviderError

section \<open>Data frames\<close>

text \<open>
  A float cell of a frame is a \<open>real option\<close>: \<open>None\<close> is NaN (a missing value),
  \<open>Some x\<close> a finite float64 value, as the real number it is. Arithmetic on cells
  rounds: the functions that compute with cells take the rounding \<open>fl\<close> of the
  result of one float64 operation as a parameter (round to nearest for float64, the
  identity for exact arithmetic; overflow to infinity is not modelled).
  A frame keeps the labels of its year columns and its rows in order. The columns a
  row always has are record fields; the year columns are the list \<open>years\<close>, one cell per
  label of \<open>year_columns\<close>, so that \<open>df.iloc[:, 2:]\<close> of a frame whose first two columns
  are the identity columns is exactly \<open>years\<close>.
\<close>

record 'r frame =
  year_columns :: "string list"
  rows :: "'r list"

text \<open>The columns \<open>Country Code\<close>, \<open>Indicator Name\<close> and the year columns.\<close>

record id_row =
  Country_Code :: string
  Indicator_Name :: string
  years :: "real option list"

text \<open>
  A row of the table built by \<open>extract_development_data\<close>: the same, and the columns
  \<open>Country Name\<close> and \<open>Indicator Code\<close>.
\<close>

record wdi_row = id_row +
  Country_Name :: string
  Indicator_Code :: string

text \<open>A row while the helper column \<open>NaN_count\<close> exists.\<close>

record counted_row = id_row +
  NaN_count :: nat

text \<open>
  A frame is well formed when its column labels are distinct and every row has one
  cell per year column. pandas cannot build any other frame with unique labels.
\<close>

definition wf_frame :: "('a id_row_scheme) frame \<Rightarrow> bool" where
  "wf_frame df \<longleftrightarrow>
     distinct (year_columns df) \<and>
     list_all (\<lambda>r. length (years r) = length (year_columns df)) (rows df)"

section \<open>Python and pandas primitives\<close>

text \<open>\<open>str(n)\<close> for an integer: decimal digits, a minus sign when negative.\<close>

definition digit_char :: "nat \<Rightarrow> char" where
  "digit_char d = ''0123456789'' ! d"

fun str_nat :: "nat \<Rightarrow> string" where
  "str_nat n = (if n < 10 then [digit_char n] else str_nat (n div 10) @ [digit_char (n mod 10)])"

declare str_nat.simps [simp del]

definition str_int :: "int \<Rightarrow> string" where
  "str_int i = (if i < 0 then CHR ''-'' # str_nat (nat (- i)) else str_nat (nat i))"

text \<open>\<open>[str(year) for year in range(df_min_year, df_max_year + 1)]\<close>\<close>

definition year_labels :: "int \<Rightarrow> int \<Rightarrow> string list" where
  "year_labels df_min_year df_max_year = map str_int [df_min_year..df_max_year]"

text \<open>\<open>Index.get_loc\<close>: the position of a label, \<open>None\<close> where pandas raises \<open>KeyError\<close>.\<close>

fun get_loc :: "string list \<Rightarrow> string \<Rightarrow> nat option" where
  "get_loc [] l = None"
| "get_loc (c # cs) l = (if c = l then Some 0 else map_option Suc (get_loc cs l))"

text \<open>
  \<open>df.loc[:, ['Country Code', 'Indicator Name'] + labels]\<close>: a new frame with the two
  identity columns and the year columns named by \<open>labels\<close>, in that order. A label that
  is not a column raises \<open>KeyError\<close>. The two identity columns exist in every \<open>wdi_row\<close>.
  The positions come from the labels of the frame, so on a well-formed frame every
  position read is a cell of the row.
\<close>

definition loc_columns :: "wdi_row frame \<Rightarrow> string list \<Rightarrow> py_error + id_row frame" where
  "loc_columns df labels =
     (case those (map (get_loc (year_columns df)) labels) of
        None \<Rightarrow> Inl KeyError
      | Some positions \<Rightarrow>
          Inr \<lparr>year_columns = labels,
               rows = map (\<lambda>r. \<lparr>Country_Code = Country_Code r,
                                 Indicator_Name = Indicator_Name r,
                                 years = map (\<lambda>p. years r ! p) positions\<rparr>) (rows df)\<rparr>)"

text \<open>\<open>df.iloc[:, 2:].isna().sum(axis=1)\<close>, for one row.\<close>

definition isna_sum :: "real option list \<Rightarrow> nat" where
  "isna_sum cs = length (filter (\<lambda>c. c = None) cs)"

text \<open>\<open>df['NaN_count'] = df.iloc[:, 2:].isna().sum(axis=1)\<close>\<close>

definition set_NaN_count :: "id_row frame \<Rightarrow> counted_row frame" where
  "set_NaN_count df =
     \<lparr>year_columns = year_columns df,
      rows = map (\<lambda>r. \<lparr>Country_Code = Country_Code r,
                        Indicator_Name = Indicator_Name r,
                        years = years r,
                        NaN_count = isna_sum (years r)\<rparr>) (rows df)\<rparr>"

text \<open>\<open>df[df['NaN_count'] <= nc_half]\<close>\<close>

definition filter_NaN_count :: "nat \<Rightarrow> counted_row frame \<Rightarrow> counted_row frame" where
  "filter_NaN_count nc_half df = df\<lparr>rows := filter (\<lambda>r. NaN_count r \<le> nc_half) (rows df)\<rparr>"

text \<open>\<open>df.drop(columns=['NaN_count'])\<close>\<close>

definition drop_NaN_count :: "counted_row frame \<Rightarrow> id_row frame" where
  "drop_NaN_count df =
     \<lparr>year_columns = year_columns df,
      rows = map (\<lambda>r. \<lparr>Country_Code = Country_Code r,
                        Indicator_Name = Indicator_Name r,
                        years = years r\<rparr>) (rows df)\<rparr>"

text \<open>
  \<open>(df.iloc[:, 2:] == 0).all(axis=1)\<close>, for one row: NaN compares unequal to 0, and
  \<open>all\<close> over no columns is true.
\<close>

definition all_zero :: "real option list \<Rightarrow> bool" where
  "all_zero cs = list_all (\<lambda>c. case c of None \<Rightarrow> False | Some x \<Rightarrow> x = 0) cs"

text \<open>\<open>df[~(df.iloc[:, 2:] == 0).all(axis=1)]\<close>\<close>

definition drop_all_zero :: "id_row frame \<Rightarrow> id_row frame" where
  "drop_all_zero df = df\<lparr>rows := filter (\<lambda>r. \<not> all_zero (years r)) (rows df)\<rparr>"

text \<open>\<open>df.iloc[:, 2:].isna().any().any()\<close>\<close>

definition isna_any :: "id_row frame \<Rightarrow> bool" where
  "isna_any df = list_ex (\<lambda>r. list_ex (\<lambda>c. c = None) (years r)) (rows df)"

subsection \<open>Interpolation and fill along a row\<close>

text \<open>
  pandas interpolates a row with \<open>method='linear'\<close> by treating the cells as equally
  spaced: the positions and values of the cells that are not NaN are the sample points
  handed to \<open>numpy.interp\<close>.
\<close>

fun valid_points :: "nat \<Rightarrow> real option list \<Rightarrow> (nat \<times> real) list" where
  "valid_points i [] = []"
| "valid_points i (None # cs) = valid_points (Suc i) cs"
| "valid_points i (Some y # cs) = (i, y) # valid_points (Suc i) cs"

text \<open>
  \<open>numpy.interp(x, xp, fp)\<close> for a non-empty, increasing \<open>xp\<close>, given as the first
  sample point and the rest: the first value left of the samples, the last value right
  of them, and between two neighbours
  \<open>slope = (fp[j+1] - fp[j]) / (xp[j+1] - xp[j])\<close>, then
  \<open>slope * (x - xp[j]) + fp[j]\<close>, all in float64: each of the six operations rounds
  its result.
\<close>

fun np_interp ::
  "(real \<Rightarrow> real) \<Rightarrow> nat \<Rightarrow> nat \<times> real \<Rightarrow> (nat \<times> real) list \<Rightarrow> real" where
  "np_interp fl x (i, y) [] = y"
| "np_interp fl x (i, y) ((j, z) # ps) =
     (if x \<le> i then y
      else if x < j
        then fl (fl (fl (fl (z - y) / fl (real j - real i)) * fl (real x - real i)) + y)
      else np_interp fl x (j, z) ps)"

text \<open>
  \<open>interpolate(method='linear')\<close> on one row, with pandas' defaults
  (\<open>limit_direction='forward'\<close>, no limit): a row of NaN only is returned as it is;
  otherwise every NaN at or after the first valid cell takes the value of
  \<open>numpy.interp\<close>, and the NaN before the first valid cell stay.
\<close>

definition interpolate_1d :: "(real \<Rightarrow> real) \<Rightarrow> real option list \<Rightarrow> real option list" where
  "interpolate_1d fl cs =
     (case valid_points 0 cs of
        [] \<Rightarrow> cs
      | p # ps \<Rightarrow>
          map (\<lambda>(k, c). case c of
                          Some v \<Rightarrow> Some v
                        | None \<Rightarrow> if k < fst p then None else Some (np_interp fl k p ps))
              (enumerate 0 cs))"

text \<open>\<open>bfill\<close>: a NaN takes the next valid value to its right, if there is one.\<close>

fun bfill_1d :: "real option list \<Rightarrow> real option list" where
  "bfill_1d [] = []"
| "bfill_1d (Some v # cs) = Some v # bfill_1d cs"
| "bfill_1d (None # cs) = (case bfill_1d cs of [] \<Rightarrow> [None] | c # cs' \<Rightarrow> c # c # cs')"

text \<open>\<open>ffill\<close>: a NaN takes the last valid value to its left, if there is one.\<close>

fun ffill_from :: "real option \<Rightarrow> real option list \<Rightarrow> real option list" where
  "ffill_from prev [] = []"
| "ffill_from prev (Some v # cs) = Some v # ffill_from (Some v) cs"
| "ffill_from prev (None # cs) = prev # ffill_from prev cs"

definition ffill_1d :: "real option list \<Rightarrow> real option list" where
  "ffill_1d cs = ffill_from None cs"

text \<open>\<open>.interpolate(axis=1, method='linear').bfill(axis=1).ffill(axis=1)\<close>, for one row.\<close>

definition fill_row :: "(real \<Rightarrow> real) \<Rightarrow> real option list \<Rightarrow> real option list" where
  "fill_row fl cs = ffill_1d (bfill_1d (interpolate_1d fl cs))"

text \<open>
  The gap-resolution step: when any cell of the year columns is NaN the year block of
  the frame is overwritten in place by its interpolated and filled copy.
\<close>

definition resolve_gaps :: "(real \<Rightarrow> real) \<Rightarrow> id_row frame \<Rightarrow> id_row frame" where
  "resolve_gaps fl df =
     (if isna_any df
      then df\<lparr>rows := map (\<lambda>r. r\<lparr>years := fill_row fl (years r)\<rparr>) (rows df)\<rparr>
      else df)"

section \<open>The indicator transformer\<close>

text \<open>
  \<open>transform_development_data\<close> of \<open>ETL/transform.py\<close>, called with
  \<open>save_to_csv=False\<close>. The argument \<open>development_data\<close> is what
  \<open>extract_development_data\<close> returned, which may be Python's \<open>None\<close>; then
  \<open>development_data.copy()\<close> raises \<open>AttributeError\<close>. Every exception is printed
  and raised again. The progress lines printed on the way are not part of the model.
  The first argument is the float64 rounding, used by the interpolation only.
\<close>

definition density_filter :: "id_row frame \<Rightarrow> id_row frame" where
  "density_filter df =
     (let num_year_columns = length (year_columns df);
          nc_half = num_year_columns div 2
      in drop_NaN_count (filter_NaN_count nc_half (set_NaN_count df)))"

fun transform_development_data ::
  "(real \<Rightarrow> real) \<Rightarrow> string \<Rightarrow> wdi_row frame option \<Rightarrow> int \<Rightarrow> int \<Rightarrow>
   py_error + id_row frame" where
  "transform_development_data fl country_code None df_min_year df_max_year = Inl AttributeError"
| "transform_development_data fl country_code (Some development_data) df_min_year df_max_year =
     (case loc_columns development_data (year_labels df_min_year df_max_year) of
        Inl e \<Rightarrow> Inl e
      | Inr selected \<Rightarrow> Inr (resolve_gaps fl (drop_all_zero (density_filter selected))))"

subsection \<open>Gap resolution in the words of the specification\<close>

text \<open>
  The specification describes gap resolution by what each gap receives: a gap between
  two known values a point of the straight line through them, a leading gap the first
  known value, a trailing gap the last known value. The functions below say this by
  recursion along the row, with no reference to \<open>interpolate\<close>, \<open>bfill\<close> or
  \<open>ffill\<close>; they are compared with \<open>fill_row\<close> in the properties.

  \<open>line_value fl a b k j\<close> is the value of the \<open>j\<close>-th of \<open>k\<close> gaps between the known
  values \<open>a\<close> and \<open>b\<close>: in exact arithmetic \<open>a + (b - a) * j / (k + 1)\<close>, in float64
  the same expression evaluated in the order of \<open>numpy.interp\<close>.
\<close>

definition line_value :: "(real \<Rightarrow> real) \<Rightarrow> real \<Rightarrow> real \<Rightarrow> nat \<Rightarrow> nat \<Rightarrow> real" where
  "line_value fl a b k j = fl (fl (fl (fl (b - a) / fl (real (k + 1))) * fl (real j)) + a)"

text \<open>
  The cells after a known value \<open>a\<close>, of which \<open>k\<close> gaps are pending: at the end of
  the row the pending gaps are trailing and take \<open>a\<close>; at the next known value \<open>b\<close>
  they are interior and take the points of the line from \<open>a\<close> to \<open>b\<close>.
\<close>

fun spec_after_known :: "(real \<Rightarrow> real) \<Rightarrow> real \<Rightarrow> nat \<Rightarrow> real option list \<Rightarrow> real option list" where
  "spec_after_known fl a k [] = replicate k (Some a)"
| "spec_after_known fl a k (None # cs) = spec_after_known fl a (Suc k) cs"
| "spec_after_known fl a k (Some b # cs) =
     map (\<lambda>j. Some (line_value fl a b k j)) [1..<Suc k] @ Some b # spec_after_known fl b 0 cs"

text \<open>
  The row from its start, \<open>m\<close> leading gaps pending: they take the first known value;
  a row with no known value stays as it is.
\<close>

fun spec_leading :: "(real \<Rightarrow> real) \<Rightarrow> nat \<Rightarrow> real option list \<Rightarrow> real option list" where
  "spec_leading fl m [] = replicate m None"
| "spec_leading fl m (None # cs) = spec_leading fl (Suc m) cs"
| "spec_leading fl m (Some a # cs) = replicate m (Some a) @ Some a # spec_after_known fl a 0 cs"

definition spec_gap_resolution :: "(real \<Rightarrow> real) \<Rightarrow> real option list \<Rightarrow> real option list" where
  "spec_gap_resolution fl cs = spec_leading fl 0 cs"

text \<open>
  float64 represents every integer of magnitude up to \<open>2^53\<close>, so an operation whose
  exact result is such an integer returns it.
\<close>

definition exact_on_integers :: "(real \<Rightarrow> real) \<Rightarrow> bool" where
  "exact_on_integers fl \<longleftrightarrow> (\<forall>n::int. \<bar>n\<bar> \<le> 2 ^ 53 \<longrightarrow> fl (real_of_int n) = real_of_int n)"

section \<open>The disaster transformer\<close>

text \<open>
  A row of the EM-DAT table, with the columns the pipeline reads. \<open>Start Year\<close> is an
  integer column. \<open>Magnitude\<close> and \<open>Total Affected\<close> are float columns and
  \<open>Magnitude Scale\<close> a text column, each with NaN (\<open>None\<close>) where the source has no
  entry.
\<close>

record disaster_row =
  ISO :: string
  Start_Year :: int
  Magnitude_Scale :: "string option"
  Magnitude :: "real option"
  Total_Affected :: "real option"
  Event_Name :: string
  OFDA_BHA_Response :: string

text \<open>
  \<open>column >= bound\<close> on a float64 cell and a float64 bound: false on NaN, and the
  order of the real numbers otherwise.
\<close>

definition ge_cell :: "real option \<Rightarrow> real \<Rightarrow> bool" where
  "ge_cell c bound = (case c of None \<Rightarrow> False | Some x \<Rightarrow> bound \<le> x)"

text \<open>
  The threshold \<open>min_total_affected\<close> is a Python int and the column
  \<open>Total Affected\<close> is float64: for the comparison numpy converts the int to float64,
  to the nearest float64 with ties to the even significand. A float64 has 53
  significant bits, so an integer of magnitude up to \<open>2^53\<close> is unchanged and a larger
  one is rounded at the bit \<open>e\<close> places above the lowest, \<open>e\<close> the number of bits it
  has beyond 53. The conversion is the one of an int in the range of a 64-bit
  integer; a larger Python int takes another path in numpy, which is not modelled.
\<close>

fun bit_length :: "nat \<Rightarrow> nat" where
  "bit_length n = (if n = 0 then 0 else Suc (bit_length (n div 2)))"

declare bit_length.simps [simp del]

definition round_to_53_bits :: "nat \<Rightarrow> nat" where
  "round_to_53_bits m =
     (if m \<le> 2 ^ 53 then m
      else let e = bit_length m - 53;
               q = m div 2 ^ e;
               r = m mod 2 ^ e;
               half = 2 ^ (e - 1)
           in (if half < r \<or> (r = half \<and> odd q) then q + 1 else q) * 2 ^ e)"

definition float64_of_int :: "int \<Rightarrow> real" where
  "float64_of_int i =
     (if i < 0 then - real (round_to_53_bits (nat (- i))) else real (round_to_53_bits (nat i)))"

text \<open>
  \<open>transform_disaster_data\<close> of \<open>ETL/transform.py\<close>, called with
  \<open>save_to_csv=False\<close>: three boolean-mask selections one after the other, each on the
  frame the one before returned.
\<close>

definition transform_disaster_data ::
  "string \<Rightarrow> disaster_row list \<Rightarrow> int \<Rightarrow> int \<Rightarrow> int \<Rightarrow> disaster_row list" where
  "transform_disaster_data country_code disaster_data df_min_year df_max_year min_total_affected =
     (let by_year = filter (\<lambda>r. df_min_year \<le> Start_Year r \<and> Start_Year r \<le> df_max_year)
                           disaster_data;
          major = filter (\<lambda>r. Magnitude_Scale r = Some ''Kph'' \<and> ge_cell (Magnitude r) 178)
                         by_year;
          severe = filter (\<lambda>r. ge_cell (Total_Affected r) (float64_of_int min_total_affected))
                          major
      in severe)"

section \<open>The transformers over a store of objects\<close>

text \<open>
  Python passes a table by reference, and two statements of
  \<open>transform_development_data\<close> write into a frame in place. To see which object they
  write into, the frames live in a store: a list of objects, the address of an object
  its position. A statement that builds a new frame (\<open>copy\<close>, \<open>loc\<close> with a list of
  labels, selection by a boolean mask, \<open>drop\<close>) appends an object; a statement that
  assigns into a frame (\<open>df['NaN_count'] = ...\<close>, \<open>df.iloc[:, 2:] = ...\<close>) replaces
  the object at the address of that frame. \<open>NoneObj\<close> is Python's \<open>None\<close>.
\<close>

datatype pyobj =
    NoneObj
  | WDI "wdi_row frame"
  | Selected "id_row frame"
  | Counted "counted_row frame"
  | EMDAT "disaster_row list"

type_synonym heap = "pyobj list"

type_synonym 'a prog = "heap \<Rightarrow> (py_error + 'a) \<times> heap"

text \<open>Sequencing: an exception ends the function with the store as it is then.\<close>

definition then_do :: "'a prog \<Rightarrow> ('a \<Rightarrow> 'b prog) \<Rightarrow> 'b prog" where
  "then_do f g h = (case f h of (Inl e, h') \<Rightarrow> (Inl e, h') | (Inr x, h') \<Rightarrow> g x h')"

definition return_value :: "'a \<Rightarrow> 'a prog" where
  "return_value x h = (Inr x, h)"

text \<open>
  An attribute or item access on \<open>None\<close> raises (\<open>AttributeError\<close> stands for both); a
  frame that lacks the columns a statement reads raises \<open>KeyError\<close>.
\<close>

definition py_copy :: "nat \<Rightarrow> nat prog" where
  "py_copy a h =
     (case h ! a of
        NoneObj \<Rightarrow> (Inl AttributeError, h)
      | obj \<Rightarrow> (Inr (length h), h @ [obj]))"

definition py_loc_columns :: "nat \<Rightarrow> string list \<Rightarrow> nat prog" where
  "py_loc_columns a labels h =
     (case h ! a of
        WDI df \<Rightarrow>
          (case loc_columns df labels of
             Inl e \<Rightarrow> (Inl e, h)
           | Inr sel \<Rightarrow> (Inr (length h), h @ [Selected sel]))
      | NoneObj \<Rightarrow> (Inl AttributeError, h)
      | _ \<Rightarrow> (Inl KeyError, h))"

definition py_num_year_columns :: "nat \<Rightarrow> nat prog" where
  "py_num_year_columns a h =
     (case h ! a of
        Selected df \<Rightarrow> (Inr (length (year_columns df)), h)
      | NoneObj \<Rightarrow> (Inl AttributeError, h)
      | _ \<Rightarrow> (Inl KeyError, h))"

definition py_set_NaN_count :: "nat \<Rightarrow> unit prog" where
  "py_set_NaN_count a h =
     (case h ! a of
        Selected df \<Rightarrow> (Inr (), h[a := Counted (set_NaN_count df)])
      | NoneObj \<Rightarrow> (Inl AttributeError, h)
      | _ \<Rightarrow> (Inl KeyError, h))"

definition py_filter_NaN_count :: "nat \<Rightarrow> nat \<Rightarrow> nat prog" where
  "py_filter_NaN_count nc_half a h =
     (case h ! a of
        Counted df \<Rightarrow> (Inr (length h), h @ [Counted (filter_NaN_count nc_half df)])
      | NoneObj \<Rightarrow> (Inl AttributeError, h)
      | _ \<Rightarrow> (Inl KeyError, h))"

definition py_drop_NaN_count :: "nat \<Rightarrow> nat prog" where
  "py_drop_NaN_count a h =
     (case h ! a of
        Counted df \<Rightarrow> (Inr (length h), h @ [Selected (drop_NaN_count df)])
      | NoneObj \<Rightarrow> (Inl AttributeError, h)
      | _ \<Rightarrow> (Inl KeyError, h))"

definition py_drop_all_zero :: "nat \<Rightarrow> nat prog" where
  "py_drop_all_zero a h =
     (case h ! a of
        Selected df \<Rightarrow> (Inr (length h), h @ [Selected (drop_all_zero df)])
      | NoneObj \<Rightarrow> (Inl AttributeError, h)
      | _ \<Rightarrow> (Inl KeyError, h))"

definition py_resolve_gaps :: "(real \<Rightarrow> real) \<Rightarrow> nat \<Rightarrow> unit prog" where
  "py_resolve_gaps fl a h =
     (case h ! a of
        Selected df \<Rightarrow> (Inr (), if isna_any df then h[a := Selected (resolve_gaps fl df)] else h)
      | NoneObj \<Rightarrow> (Inl AttributeError, h)
      | _ \<Rightarrow> (Inl KeyError, h))"

definition py_select_rows :: "(disaster_row \<Rightarrow> bool) \<Rightarrow> nat \<Rightarrow> nat prog" where
  "py_select_rows keep a h =
     (case h ! a of
        EMDAT t \<Rightarrow> (Inr (length h), h @ [EMDAT (filter keep t)])
      | NoneObj \<Rightarrow> (Inl AttributeError, h)
      | _ \<Rightarrow> (Inl KeyError, h))"

text \<open>
  \<open>transform_development_data\<close>, statement by statement. The argument is the address
  of the caller's table, the result the address of the table returned. The local
  variable \<open>development_data_transformed\<close> is bound to five objects in turn, named
  \<open>t0\<close> to \<open>t4\<close> here.
\<close>

definition transform_development_data_heap ::
  "(real \<Rightarrow> real) \<Rightarrow> string \<Rightarrow> nat \<Rightarrow> int \<Rightarrow> int \<Rightarrow> nat prog" where
  "transform_development_data_heap fl country_code development_data df_min_year df_max_year =
     then_do (py_copy development_data) (\<lambda>t0.
     then_do (py_loc_columns t0 (year_labels df_min_year df_max_year)) (\<lambda>t1.
     then_do (py_num_year_columns t1) (\<lambda>num_year_columns.
     then_do (py_set_NaN_count t1) (\<lambda>_.
     then_do (py_filter_NaN_count (num_year_columns div 2) t1) (\<lambda>t2.
     then_do (py_drop_NaN_count t2) (\<lambda>t3.
     then_do (py_drop_all_zero t3) (\<lambda>t4.
     then_do (py_resolve_gaps fl t4) (\<lambda>_.
     return_value t4))))))))"

text \<open>\<open>transform_disaster_data\<close>, statement by statement.\<close>

definition transform_disaster_data_heap ::
  "string \<Rightarrow> nat \<Rightarrow> int \<Rightarrow> int \<Rightarrow> int \<Rightarrow> nat prog" where
  "transform_disaster_data_heap country_code disaster_data df_min_year df_max_year
       min_total_affected =
     then_do (py_copy disaster_data) (\<lambda>t0.
     then_do (py_select_rows
                (\<lambda>r. df_min_year \<le> Start_Year r \<and> Start_Year r \<le> df_max_year) t0) (\<lambda>t1.
     then_do (py_select_rows
                (\<lambda>r. Magnitude_Scale r = Some ''Kph'' \<and> ge_cell (Magnitude r) 178) t1) (\<lambda>t2.
     then_do (py_select_rows
                (\<lambda>r. ge_cell (Total_Affected r) (float64_of_int min_total_affected)) t2) (\<lambda>t3.
     return_value t3))))"

section \<open>The report renderer\<close>

text \<open>
  \<open>generate_report\<close> of \<open>analysis/visual_timeseries.py\<close>. A page of the PDF is the
  chart that was drawn when \<open>pdf.savefig()\<close> ran: its title, the year labels on the
  x axis, the values of the indicator, and one vertical marker (position, legend label)
  for each retained disaster whose start year is among the year labels. The colour of a
  marker, the output directory and the file are not part of the model.
\<close>

record chart =
  chart_title :: string
  x_labels :: "string list"
  y_values :: "real option list"
  markers :: "(string \<times> string) list"

text \<open>The lines the function prints.\<close>

datatype log_line =
    Info_indicators_found nat
  | Info_progress nat nat
  | Warning_skipping string
  | Error_failed_to_plot string py_error
  | Info_saved_report
  | Error_generating_report py_error

record report =
  pages :: "chart list"
  printed :: "log_line list"

text \<open>\<open>str.isdigit\<close> on an ASCII string.\<close>

definition isdigit :: "string \<Rightarrow> bool" where
  "isdigit s \<longleftrightarrow> s \<noteq> [] \<and> list_all (\<lambda>c. c \<in> set ''0123456789'') s"

text \<open>\<open>row[1][year_cols].values\<close>: the cells of the row under the digit-named columns.\<close>

definition year_values :: "string list \<Rightarrow> id_row \<Rightarrow> real option list" where
  "year_values columns row = map snd (filter (\<lambda>(l, c). isdigit l) (zip columns (years row)))"

text \<open>\<open>pd.isna(values).all()\<close>\<close>

definition all_missing :: "real option list \<Rightarrow> bool" where
  "all_missing vs = list_all (\<lambda>c. c = None) vs"

definition label_suffix :: "string \<Rightarrow> string \<Rightarrow> string" where
  "label_suffix country_code ofda =
     (if country_code \<in> set [''PRI'', ''USA''] then ''''
      else if ofda = ''Yes'' then '' (US Response)'' else '' (No US Response)'')"

text \<open>What the body of the inner \<open>try\<close> draws for one indicator.\<close>

definition indicator_chart ::
  "string \<Rightarrow> string list \<Rightarrow> string list \<Rightarrow> disaster_row list \<Rightarrow> id_row \<Rightarrow> chart" where
  "indicator_chart country_code columns year_cols dis_data row =
     \<lparr>chart_title = country_code @ '': '' @ Indicator_Name row,
      x_labels = year_cols,
      y_values = year_values columns row,
      markers = map (\<lambda>e. (str_int (Start_Year e),
                           Event_Name e @ label_suffix country_code (OFDA_BHA_Response e)))
                    (filter (\<lambda>e. str_int (Start_Year e) \<in> set year_cols) dis_data)\<rparr>"

text \<open>
  The loop over \<open>enumerate(dev_data.iterrows(), start=1)\<close>. The plotting library is
  outside the repository: \<open>draw i c\<close> says what the plotting calls of iteration \<open>i\<close> do
  with the chart \<open>c\<close>, \<open>None\<close> when they run through and \<open>pdf.savefig()\<close> adds the
  page, \<open>Some e\<close> when one of them raises \<open>e\<close> before the page is added. The exception
  is caught by the inner \<open>except\<close>, which prints and continues.
\<close>

fun report_loop ::
  "(nat \<Rightarrow> chart \<Rightarrow> py_error option) \<Rightarrow> string \<Rightarrow> string list \<Rightarrow> string list \<Rightarrow>
   disaster_row list \<Rightarrow> nat \<Rightarrow> (nat \<times> id_row) list \<Rightarrow> report \<Rightarrow> report" where
  "report_loop draw country_code columns year_cols dis_data total_indicators [] pdf = pdf"
| "report_loop draw country_code columns year_cols dis_data total_indicators ((i, row) # rest) pdf =
     (let indicator_name = Indicator_Name row;
          vals = year_values columns row;
          pdf1 = (if i mod 100 = 0 \<or> i = total_indicators
                  then pdf\<lparr>printed := printed pdf @ [Info_progress i total_indicators]\<rparr>
                  else pdf)
      in if all_missing vals
         then report_loop draw country_code columns year_cols dis_data total_indicators rest
                (pdf1\<lparr>printed := printed pdf1 @ [Warning_skipping indicator_name]\<rparr>)
         else (case draw i (indicator_chart country_code columns year_cols dis_data row) of
                 Some e \<Rightarrow>
                   report_loop draw country_code columns year_cols dis_data total_indicators rest
                     (pdf1\<lparr>printed := printed pdf1 @ [Error_failed_to_plot indicator_name e]\<rparr>)
               | None \<Rightarrow>
                   report_loop draw country_code columns year_cols dis_data total_indicators rest
                     (pdf1\<lparr>pages := pages pdf1 @
                        [indicator_chart country_code columns year_cols dis_data row]\<rparr>)))"

text \<open>
  The function. \<open>min(year_cols)\<close> raises \<open>ValueError\<close> when the table has no
  digit-named column; the outer \<open>except\<close> prints and raises again.
\<close>

definition generate_report ::
  "string \<Rightarrow> id_row frame \<Rightarrow> disaster_row list \<Rightarrow> (nat \<Rightarrow> chart \<Rightarrow> py_error option) \<Rightarrow>
   py_error + report" where
  "generate_report country_code dev_data dis_data draw =
     (let year_cols = filter isdigit (year_columns dev_data) in
      if year_cols = [] then Inl ValueError
      else
        let total_indicators = length (rows dev_data);
            pdf = report_loop draw country_code (year_columns dev_data) year_cols dis_data
                    total_indicators (enumerate 1 (rows dev_data))
                    \<lparr>pages = [], printed = [Info_indicators_found total_indicators]\<rparr>
        in Inr (pdf\<lparr>printed := printed pdf @ [Info_saved_report]\<rparr>))"

text \<open>
  The indicators of a table that get a page: those not skipped for missing data whose
  drawing does not raise, with their position in the table (from 1).
\<close>

definition gets_page ::
  "(nat \<Rightarrow> chart \<Rightarrow> py_error option) \<Rightarrow> string \<Rightarrow> string list \<Rightarrow> string list \<Rightarrow>
   disaster_row list \<Rightarrow> nat \<times> id_row \<Rightarrow> bool" where
  "gets_page draw country_code columns year_cols dis_data ir \<longleftrightarrow>
     \<not> all_missing (year_values columns (snd ir)) \<and>
     draw (fst ir) (indicator_chart country_code columns year_cols dis_data (snd ir)) = None"

text \<open>The error lines among the printed lines.\<close>

fun plot_errors :: "log_line list \<Rightarrow> (string \<times> py_error) list" where
  "plot_errors [] = []"
| "plot_errors (Error_failed_to_plot name e # ls) = (name, e) # plot_errors ls"
| "plot_errors (_ # ls) = plot_errors ls"

section \<open>Extraction and the pipeline\<close>

text \<open>
  The frame \<open>wb.data.DataFrame\<close> returns for one batch of indicators: time labels
  (\<open>'YR2020'\<close>) as the index, one column per series. \<open>df.empty\<close> holds when either
  axis has length 0.
\<close>

record wb_frame =
  time_index :: "string list"
  series :: "string list"
  wb_values :: "real option list list"

definition frame_empty :: "wb_frame \<Rightarrow> bool" where
  "frame_empty df \<longleftrightarrow> time_index df = [] \<or> series df = []"

text \<open>
  Everything outside the repository that a run of the pipeline depends on:
  \<^item> \<open>series_list\<close>: the result of \<open>wb.series.list()\<close>, the id and the name of each
    indicator, or the exception it raises;
  \<^item> \<open>economy_get\<close>: the country name \<open>wb.economy.get(code)['value']\<close>, or the
    exception;
  \<^item> \<open>data_DataFrame\<close>: the frame \<open>wb.data.DataFrame\<close> returns for a batch of
    series and a country, or the exception;
  \<^item> \<open>combine\<close>: the pandas calls of lines 74 to 104 of \<open>ETL/extract.py\<close> (concat,
    melt, pivot and the reordering of the columns) as one function of the fetched
    frames, the country name, the country code and the indicator names, with the table
    they build or the exception they raise;
  \<^item> \<open>read_emdat\<close>: the EM-DAT file as a table, \<open>None\<close> when the file does not
    exist;
  \<^item> \<open>draw_page\<close>: the plotting backend of \<open>generate_report\<close>;
  \<^item> \<open>float64_round\<close>: the rounding of float64 operations.
  The output directories and the CSV files written on request are not modelled.
\<close>

record environment =
  series_list :: "py_error + (string \<times> string) list"
  economy_get :: "string \<Rightarrow> py_error + string"
  data_DataFrame :: "string list \<Rightarrow> string \<Rightarrow> py_error + wb_frame"
  combine :: "wb_frame list \<Rightarrow> string \<Rightarrow> string \<Rightarrow> (string \<times> string) list \<Rightarrow>
              py_error + wdi_row frame"
  read_emdat :: "disaster_row list option"
  draw_page :: "nat \<Rightarrow> chart \<Rightarrow> py_error option"
  float64_round :: "real \<Rightarrow> real"

text \<open>\<open>range(0, n, batch_size)\<close> and the batches \<open>indicators[i:i + batch_size]\<close>.\<close>

definition batch_size :: nat where
  "batch_size = 100"

definition batch_starts :: "nat \<Rightarrow> nat list" where
  "batch_starts n = map (\<lambda>k. k * batch_size) [0..<(n + (batch_size - 1)) div batch_size]"

definition indicator_batches :: "(string \<times> string) list \<Rightarrow> string list list" where
  "indicator_batches indicators =
     map (\<lambda>i. map fst (take batch_size (drop i indicators)))
         (batch_starts (length indicators))"

text \<open>
  The loop over the batches, with its two accumulators \<open>batch_dfs\<close> and
  \<open>failed_batches\<close>. A batch whose fetch raises is recorded in \<open>failed_batches\<close>, an
  error line is printed for it, and the loop goes on; a frame that is empty is not
  kept.
\<close>

fun fetch_batches ::
  "environment \<Rightarrow> string \<Rightarrow> string list list \<Rightarrow> wb_frame list \<times> string list list \<Rightarrow>
   wb_frame list \<times> string list list" where
  "fetch_batches env country_code [] (batch_dfs, failed_batches) = (batch_dfs, failed_batches)"
| "fetch_batches env country_code (batch # rest) (batch_dfs, failed_batches) =
     (case data_DataFrame env batch country_code of
        Inr df_batch \<Rightarrow>
          fetch_batches env country_code rest
            (if \<not> frame_empty df_batch then batch_dfs @ [df_batch] else batch_dfs,
             failed_batches)
      | Inl e \<Rightarrow>
          fetch_batches env country_code rest (batch_dfs, failed_batches @ [batch]))"

text \<open>
  \<open>extract_development_data\<close> of \<open>ETL/extract.py\<close>. With no frame fetched it prints
  an error and returns \<open>None\<close>; it does not raise.
\<close>

definition extract_development_data ::
  "environment \<Rightarrow> string \<Rightarrow> py_error + wdi_row frame option" where
  "extract_development_data env country_code =
     (case series_list env of
        Inl e \<Rightarrow> Inl e
      | Inr indicators \<Rightarrow>
          (case economy_get env country_code of
             Inl e \<Rightarrow> Inl e
           | Inr country_name \<Rightarrow>
               (let (batch_dfs, failed_batches) =
                      fetch_batches env country_code (indicator_batches indicators) ([], [])
                in if batch_dfs = [] then Inr None
                   else (case combine env batch_dfs country_name country_code indicators of
                           Inl e \<Rightarrow> Inl e
                         | Inr final_df \<Rightarrow> Inr (Some final_df)))))"

text \<open>\<open>extract_disaster_data\<close> of \<open>ETL/extract.py\<close>.\<close>

definition extract_disaster_data :: "environment \<Rightarrow> string \<Rightarrow> py_error + disaster_row list" where
  "extract_disaster_data env country_code =
     (case read_emdat env of
        None \<Rightarrow> Inl FileNotFoundError
      | Some disaster_data \<Rightarrow> Inr (filter (\<lambda>r. ISO r = country_code) disaster_data))"

text \<open>
  The driver of \<open>main.py\<close>: the five stages in order for the country \<open>PRI\<close>, with the
  defaults of the transformers for the year range and 500000 for
  \<open>min_total_affected\<close>. Any exception of a stage ends the run with the line
  \<open>[ERROR] Pipeline test failed.\<close>
\<close>

datatype outcome = Pipeline_succeeded | Pipeline_failed

definition pipeline :: "environment \<Rightarrow> outcome" where
  "pipeline env =
     (case extract_development_data env ''PRI'' of
        Inl e \<Rightarrow> Pipeline_failed
      | Inr development_data \<Rightarrow>
     (case extract_disaster_data env ''PRI'' of
        Inl e \<Rightarrow> Pipeline_failed
      | Inr disaster_data \<Rightarrow>
     (case transform_development_data (float64_round env) ''PRI'' development_data 2007 2023 of
        Inl e \<Rightarrow> Pipeline_failed
      | Inr transformed_development_data \<Rightarrow>
     (let transformed_disaster_data =
            transform_disaster_data ''PRI'' disaster_data 2007 2023 500000
      in case generate_report ''PRI'' transformed_development_data
                transformed_disaster_data (draw_page env) of
           Inl e \<Rightarrow> Pipeline_failed
         | Inr pdf \<Rightarrow> Pipeline_succeeded))))"

text \<open>
  The frames a run keeps: for each batch in order, the frame fetched when the fetch
  returns one that is not empty, nothing when the fetch raises or the frame is empty.
\<close>

definition kept_frames :: "environment \<Rightarrow> string \<Rightarrow> string list list \<Rightarrow> wb_frame list" where
  "kept_frames env country_code batches =
     concat (map (\<lambda>batch. case data_DataFrame env batch country_code of
                             Inl e \<Rightarrow> []
                           | Inr df_batch \<Rightarrow> if frame_empty df_batch then [] else [df_batch])
                 batches)"

section \<open>Example tables\<close>

text \<open>Exact arithmetic as the rounding: no operation changes its result.\<close>

definition exact_arithmetic :: "real \<Rightarrow> real" where
  "exact_arithmetic x = x"

text \<open>
  A table as \<open>extract_development_data\<close> builds it, with the year columns 2017 to 2023
  and three indicators: one with gaps that survives the filters for the range 2018 to
  2023, one that is zero in every year of that range, and one with four of the six
  years missing.
\<close>

definition example_wdi :: "wdi_row frame" where
  "example_wdi =
     \<lparr>year_columns = [''2017'', ''2018'', ''2019'', ''2020'', ''2021'', ''2022'', ''2023''],
      rows =
        [\<lparr>Country_Code = ''PRI'', Indicator_Name = ''GDP (current US$)'',
          years = [Some 5, None, Some 10, None, Some 20, Some 30, None],
          Country_Name = ''Puerto Rico'', Indicator_Code = ''NY.GDP.MKTP.CD''\<rparr>,
         \<lparr>Country_Code = ''PRI'', Indicator_Name = ''Net migration'',
          years = [Some 7, Some 0, Some 0, Some 0, Some 0, Some 0, Some 0],
          Country_Name = ''Puerto Rico'', Indicator_Code = ''SM.POP.NETM''\<rparr>,
         \<lparr>Country_Code = ''PRI'', Indicator_Name = ''Population, total'',
          years = [Some 1, None, None, Some 10, None, Some 20, None],
          Country_Name = ''Puerto Rico'', Indicator_Code = ''SP.POP.TOTL''\<rparr>]\<rparr>"

definition example_transformed :: "id_row frame" where
  "example_transformed =
     \<lparr>year_columns = [''2018'', ''2019'', ''2020'', ''2021'', ''2022'', ''2023''],
      rows =
        [\<lparr>Country_Code = ''PRI'', Indicator_Name = ''GDP (current US$)'',
          years = [Some 10, Some 10, Some 15, Some 20, Some 30, Some 30]\<rparr>]\<rparr>"

text \<open>The columns 2018 to 2023 of \<open>example_wdi\<close>, as the selection returns them.\<close>

definition example_wdi_selected :: "id_row frame" where
  "example_wdi_selected =
     \<lparr>year_columns = [''2018'', ''2019'', ''2020'', ''2021'', ''2022'', ''2023''],
      rows =
        [\<lparr>Country_Code = ''PRI'', Indicator_Name = ''GDP (current US$)'',
          years = [None, Some 10, None, Some 20, Some 30, None]\<rparr>,
         \<lparr>Country_Code = ''PRI'', Indicator_Name = ''Net migration'',
          years = [Some 0, Some 0, Some 0, Some 0, Some 0, Some 0]\<rparr>,
         \<lparr>Country_Code = ''PRI'', Indicator_Name = ''Population, total'',
          years = [None, None, Some 10, None, Some 20, None]\<rparr>]\<rparr>"

text \<open>A row of a selected frame with the given year cells.\<close>

definition example_row :: "real option list \<Rightarrow> id_row" where
  "example_row cs = \<lparr>Country_Code = ''PRI'', Indicator_Name = ''Indicator'', years = cs\<rparr>"

text \<open>
  A selected frame with five year columns: a row with two missing years (the threshold
  \<open>5 // 2\<close>), a row with three, a row of zeros, and a row of zeros and one NaN.
\<close>

definition example_selected :: "id_row frame" where
  "example_selected =
     \<lparr>year_columns = [''2019'', ''2020'', ''2021'', ''2022'', ''2023''],
      rows = [example_row [Some 4, None, Some 6, None, Some 8],
              example_row [None, None, Some 6, None, Some 8],
              example_row [Some 0, Some 0, Some 0, Some 0, Some 0],
              example_row [Some 0, None, Some 0, Some 0, Some 0]]\<rparr>"

text \<open>A major hurricane of 2017 with the given number of people affected.\<close>

definition example_event :: "real \<Rightarrow> disaster_row" where
  "example_event affected =
     \<lparr>ISO = ''PRI'', Start_Year = 2017, Magnitude_Scale = Some ''Kph'', Magnitude = Some 250,
      Total_Affected = Some affected, Event_Name = ''Hurricane Maria'',
      OFDA_BHA_Response = ''No''\<rparr>"

text \<open>
  Five indicators with data for 2021 to 2023, and a plotting backend that raises on
  the third indicator only.
\<close>

definition five_indicators :: "id_row frame" where
  "five_indicators =
     \<lparr>year_columns = [''2021'', ''2022'', ''2023''],
      rows = map (\<lambda>name. \<lparr>Country_Code = ''PRI'', Indicator_Name = name,
                           years = [Some 1, Some 2, Some 3]\<rparr>)
                 [''One'', ''Two'', ''Three'', ''Four'', ''Five'']\<rparr>"

definition fails_on_third :: "nat \<Rightarrow> chart \<Rightarrow> py_error option" where
  "fails_on_third i c = (if i = 3 then Some ValueError else None)"

text \<open>
  A provider with 101 indicators, so two batches, of 100 and of 1. The fetch of a full
  batch raises; the fetch of the other batch raises too when \<open>all_fail\<close>, and
  returns a frame with the time labels of 2007 to 2023 otherwise. The combination
  keeps one row per fetched series and strips the prefix of the time labels.
\<close>

definition example_environment :: "bool \<Rightarrow> environment" where
  "example_environment all_fail =
     \<lparr>series_list = Inr (map (\<lambda>k. (str_nat k, ''Indicator '' @ str_nat k)) [0..<101]),
      economy_get = (\<lambda>code. Inr ''Puerto Rico''),
      data_DataFrame = (\<lambda>batch code.
         if all_fail \<or> length batch = batch_size then Inl ProviderError
         else Inr \<lparr>time_index = map (\<lambda>y. ''YR'' @ y) (year_labels 2007 2023), series = batch,
                   wb_values = map (\<lambda>y. map (\<lambda>s. Some 1) batch) (year_labels 2007 2023)\<rparr>),
      combine = (\<lambda>dfs country_name code indicators.
         Inr \<lparr>year_columns = map (drop 2) (time_index (hd dfs)),
              rows = map (\<lambda>s. \<lparr>Country_Code = code, Indicator_Name = ''Indicator '' @ s,
                                years = map (\<lambda>t. Some 1) (time_index (hd dfs)),
                                Country_Name = country_name, Indicator_Code = s\<rparr>)
                         (concat (map series dfs))\<rparr>),
      read_emdat = Some [example_event 500000],
      draw_page = (\<lambda>i c. None),
      float64_round = exact_arithmetic\<rparr>"

text \<open>The table that the example combination builds from the one batch that is fetched.\<close>

definition example_extracted :: "wdi_row frame" where
  "example_extracted =
     \<lparr>year_columns = year_labels 2007 2023,
      rows = [\<lparr>Country_Code = ''PRI'', Indicator_Name = ''Indicator 100'',
               years = map (\<lambda>t. Some 1) (year_labels 2007 2023),
               Country_Name = ''Puerto Rico'', Indicator_Code = ''100''\<rparr>]\<rparr>"

text \<open>
  The row of the specification's example, \<open>[NaN, NaN, 10, NaN, 20, NaN]\<close> for 2018
  to 2023, and a row over the same years with three gaps, one leading, one interior
  and one trailing.
\<close>

definition spec_example_table :: "wdi_row frame" where
  "spec_example_table =
     \<lparr>year_columns = [''2018'', ''2019'', ''2020'', ''2021'', ''2022'', ''2023''],
      rows =
        [\<lparr>Country_Code = ''PRI'', Indicator_Name = ''Example'',
          years = [None, None, Some 10, None, Some 20, None],
          Country_Name = ''Puerto Rico'', Indicator_Code = ''EX''\<rparr>]\<rparr>"

definition three_gaps_table :: "wdi_row frame" where
  "three_gaps_table =
     \<lparr>year_columns = [''2018'', ''2019'', ''2020'', ''2021'', ''2022'', ''2023''],
      rows =
        [\<lparr>Country_Code = ''PRI'', Indicator_Name = ''Example'',
          years = [None, Some 10, None, Some 20, Some 30, None],
          Country_Name = ''Puerto Rico'', Indicator_Code = ''EX''\<rparr>]\<rparr>"

section \<open>Properties of the indicator transformer\<close>

subsection \<open>Column selection and the density filter\<close>

lemma id_row_eta:
  "\<lparr>Country_Code = Country_Code r, Indicator_Name = Indicator_Name r, years = years r\<rparr> = (r::id_row)"
  by simp

lemma density_filter_rows:
  "rows (density_filter df) =
     filter (\<lambda>r. isna_sum (years r) \<le> length (year_columns df) div 2) (rows df)"
  by (simp add: density_filter_def drop_NaN_count_def filter_NaN_count_def set_NaN_count_def
      filter_map comp_def id_row_eta)

lemma density_filter_columns: "year_columns (density_filter df) = year_columns df"
  by (simp add: density_filter_def drop_NaN_count_def filter_NaN_count_def set_NaN_count_def)

lemma loc_columns_shape:
  assumes "loc_columns df labels = Inr sel"
  shows "year_columns sel = labels"
    and "\<And>r. r \<in> set (rows sel) \<Longrightarrow> length (years r) = length labels"
proof -
  from assms obtain ps where ps: "those (map (get_loc (year_columns df)) labels) = Some ps"
    by (auto simp: loc_columns_def split: option.splits)
  have len: "length ps = length labels"
    using ps
  proof (induction labels arbitrary: ps)
    case Nil then show ?case by simp
  next
    case (Cons l ls) then show ?case by (auto split: option.splits)
  qed
  from assms ps show "year_columns sel = labels" by (auto simp: loc_columns_def)
  fix r assume "r \<in> set (rows sel)"
  with assms ps len show "length (years r) = length labels" by (auto simp: loc_columns_def)
qed

text \<open>
  On a well-formed frame the selection reads cells that exist: each cell of a selected
  row is the cell of the source row under the column of the same label.
\<close>

lemma get_loc_Some: "get_loc cs l = Some p \<Longrightarrow> p < length cs \<and> cs ! p = l"
  by (induction cs arbitrary: p) (auto split: if_splits)

lemma those_map_Some:
  "those (map f xs) = Some ys \<Longrightarrow> list_all2 (\<lambda>x y. f x = Some y) xs ys"
  by (induction xs arbitrary: ys) (auto split: option.splits)

lemma loc_columns_reads:
  assumes "wf_frame df" and "loc_columns df labels = Inr sel"
  shows "list_all2
           (\<lambda>r s. Country_Code s = Country_Code r \<and> Indicator_Name s = Indicator_Name r \<and>
                  list_all2 (\<lambda>l c. \<exists>p < length (years r). year_columns df ! p = l \<and> years r ! p = c)
                            labels (years s))
           (rows df) (rows sel)"
proof -
  from assms(2) obtain ps where ps: "those (map (get_loc (year_columns df)) labels) = Some ps"
    and sel: "sel = \<lparr>year_columns = labels,
               rows = map (\<lambda>r. \<lparr>Country_Code = Country_Code r,
                                 Indicator_Name = Indicator_Name r,
                                 years = map (\<lambda>p. years r ! p) ps\<rparr>) (rows df)\<rparr>"
    by (auto simp: loc_columns_def split: option.splits)
  have pos: "list_all2 (\<lambda>l p. p < length (year_columns df) \<and> year_columns df ! p = l) labels ps"
    using those_map_Some [OF ps] by (rule list_all2_mono) (simp add: get_loc_Some)
  have cells: "list_all2 (\<lambda>l c. \<exists>p < length (years r). year_columns df ! p = l \<and> years r ! p = c)
          labels (map (\<lambda>p. years r ! p) ps)"
    if "r \<in> set (rows df)" for r
  proof -
    from assms(1) that have "length (years r) = length (year_columns df)"
      by (simp add: wf_frame_def list_all_iff)
    with pos show ?thesis
      by (auto simp: list_all2_conv_all_nth)
  qed
  have "list_all2
           (\<lambda>r r'. Country_Code r' = Country_Code r \<and> Indicator_Name r' = Indicator_Name r \<and>
                  list_all2 (\<lambda>l c. \<exists>p < length (years r). year_columns df ! p = l \<and> years r ! p = c)
                            labels (map (\<lambda>p. years r' ! p) ps))
           (rows df) (rows df)"
    by (rule list.rel_refl_strong) (simp add: cells)
  then show ?thesis
    unfolding sel by (simp add: list_all2_map2)
qed

lemma those_map_None:
  "those (map f xs) = None \<longleftrightarrow> (\<exists>x \<in> set xs. f x = None)"
  by (induction xs) (auto split: option.splits)

lemma get_loc_None: "get_loc cs l = None \<longleftrightarrow> l \<notin> set cs"
  by (induction cs) auto

lemma loc_columns_KeyError:
  "loc_columns df labels = Inl e \<longleftrightarrow> e = KeyError \<and> \<not> set labels \<subseteq> set (year_columns df)"
proof (cases "those (map (get_loc (year_columns df)) labels)")
  case None
  then show ?thesis
    using those_map_None [of "get_loc (year_columns df)" labels]
    by (auto simp: loc_columns_def get_loc_None)
next
  case (Some ps)
  then have "\<not> (\<exists>l \<in> set labels. get_loc (year_columns df) l = None)"
    using those_map_None [of "get_loc (year_columns df)" labels] by simp
  with Some show ?thesis by (auto simp: loc_columns_def get_loc_None)
qed

lemma year_labels_2018_2023:
  "year_labels 2018 2023 = [''2018'', ''2019'', ''2020'', ''2021'', ''2022'', ''2023'']"
  by code_simp

lemma transform_example:
  "transform_development_data exact_arithmetic ''PRI'' (Some example_wdi) 2018 2023 = Inr example_transformed"
  by (simp add: year_labels_2018_2023 example_wdi_def example_transformed_def loc_columns_def
      density_filter_def set_NaN_count_def filter_NaN_count_def drop_NaN_count_def isna_sum_def
      drop_all_zero_def all_zero_def resolve_gaps_def isna_any_def fill_row_def
      interpolate_1d_def ffill_1d_def exact_arithmetic_def)

subsection \<open>Filling a row\<close>

lemma interpolate_1d_keeps_valid:
  assumes "Some v \<in> set cs"
  shows "Some v \<in> set (interpolate_1d fl cs)"
proof -
  from assms obtain n where n: "n < length cs" "cs ! n = Some v"
    by (auto simp: in_set_conv_nth)
  show ?thesis
  proof (cases "valid_points 0 cs")
    case Nil
    then show ?thesis using assms by (simp add: interpolate_1d_def)
  next
    case (Cons p ps)
    then have "interpolate_1d fl cs ! n = Some v" "n < length (interpolate_1d fl cs)"
      using n by (simp_all add: interpolate_1d_def nth_enumerate_eq)
    then show ?thesis by (metis nth_mem)
  qed
qed

lemma bfill_1d_head:
  "Some v \<in> set cs \<Longrightarrow> \<exists>w cs'. bfill_1d cs = Some w # cs'"
proof (induction cs rule: bfill_1d.induct)
  case 1 then show ?case by simp
next
  case (2 u cs) then show ?case by simp
next
  case (3 cs)
  then obtain w cs' where "bfill_1d cs = Some w # cs'" by auto
  then show ?case by simp
qed

lemma ffill_from_valid: "None \<notin> set (ffill_from (Some a) cs)"
  by (induction "Some a" cs arbitrary: a rule: ffill_from.induct) auto

lemma fill_row_no_nan:
  assumes "Some v \<in> set cs"
  shows "None \<notin> set (fill_row fl cs)"
proof -
  from assms have "Some v \<in> set (interpolate_1d fl cs)" by (rule interpolate_1d_keeps_valid)
  then obtain w cs' where "bfill_1d (interpolate_1d fl cs) = Some w # cs'"
    using bfill_1d_head by blast
  then show ?thesis
    using ffill_from_valid [of w cs'] by (simp add: fill_row_def ffill_1d_def)
qed

lemma isna_sum_zero: "isna_sum cs = 0 \<longleftrightarrow> None \<notin> set cs"
  by (induction cs) (auto simp: isna_sum_def)

lemma dense_row_has_valid:
  assumes "isna_sum cs \<le> length cs div 2" "cs \<noteq> []"
  shows "\<exists>v. Some v \<in> set cs"
proof (rule ccontr)
  assume "\<not> (\<exists>v. Some v \<in> set cs)"
  then have "\<forall>c \<in> set cs. c = None" by (metis option.exhaust)
  then have "filter (\<lambda>c. c = None) cs = cs" by (simp add: filter_id_conv)
  then have "isna_sum cs = length cs" by (simp add: isna_sum_def)
  with assms show False by (cases cs) auto
qed

lemma resolve_gaps_no_nan:
  assumes "\<And>r. r \<in> set (rows df) \<Longrightarrow> years r = [] \<or> (\<exists>v. Some v \<in> set (years r))"
  shows "\<forall>r \<in> set (rows (resolve_gaps fl df)). isna_sum (years r) = 0"
proof (cases "isna_any df")
  case True
  have "isna_sum (fill_row fl (years r)) = 0" if "r \<in> set (rows df)" for r
  proof -
    from assms [OF that] show ?thesis
    proof
      assume "years r = []"
      then show ?thesis
        by (simp add: fill_row_def interpolate_1d_def ffill_1d_def isna_sum_def)
    next
      assume "\<exists>v. Some v \<in> set (years r)"
      then show ?thesis using fill_row_no_nan by (auto simp: isna_sum_zero)
    qed
  qed
  with True show ?thesis by (simp add: resolve_gaps_def)
next
  case False
  then show ?thesis
    by (auto simp: resolve_gaps_def isna_any_def list_ex_iff isna_sum_zero)
qed

text \<open>
  Claim C1. Whatever the table and the year range, when
  \<open>transform_development_data\<close> returns a table, no row of it has a missing value in
  any year column. A row that passed the density filter over \<open>N > 0\<close> year columns has
  at most \<open>N div 2 < N\<close> missing cells, so at least one valid cell, and interpolation
  followed by backward and forward fill then leaves no gap.
\<close>

theorem transform_development_data_no_nan:
  assumes "transform_development_data fl country_code development_data df_min_year df_max_year
             = Inr out"
  shows "\<forall>r \<in> set (rows out). isna_sum (years r) = 0"
proof -
  from assms obtain df where dd: "development_data = Some df"
    by (cases development_data) auto
  from assms dd obtain sel where
    sel: "loc_columns df (year_labels df_min_year df_max_year) = Inr sel"
    and out: "out = resolve_gaps fl (drop_all_zero (density_filter sel))"
    by (auto split: sum.splits)
  have "years r = [] \<or> (\<exists>v. Some v \<in> set (years r))"
    if "r \<in> set (rows (drop_all_zero (density_filter sel)))" for r
  proof -
    from that have r: "r \<in> set (rows sel)"
      and dense: "isna_sum (years r) \<le> length (year_columns sel) div 2"
      by (simp_all add: drop_all_zero_def density_filter_rows)
    from loc_columns_shape [OF sel] r have "length (years r) = length (year_columns sel)"
      by simp
    with dense dense_row_has_valid [of "years r"] show ?thesis by auto
  qed
  then show ?thesis unfolding out by (rule resolve_gaps_no_nan)
qed

theorem transform_development_data_no_nan_witness:
  "transform_development_data exact_arithmetic ''PRI'' (Some example_wdi) 2018 2023 = Inr example_transformed \<and>
   rows example_transformed \<noteq> [] \<and>
   list_all (\<lambda>r. isna_sum (years r) = 0) (rows example_transformed)"
  using transform_development_data_no_nan [OF transform_example] transform_example
  by (simp add: example_transformed_def list_all_iff)

text \<open>
  Claim C2, as the code has it. The function never checks the year range and has no
  error of its own for it. It raises exactly when some year of
  \<open>[df_min_year, df_max_year]\<close> is not a column of the table, and what it raises is
  the \<open>KeyError\<close> of the column selection; in particular an empty range
  (\<open>df_min_year > df_max_year\<close>) raises nothing.
\<close>

theorem transform_development_data_raises_iff:
  "transform_development_data fl country_code (Some df) df_min_year df_max_year = Inl e \<longleftrightarrow>
     e = KeyError \<and>
     (\<exists>y. df_min_year \<le> y \<and> y \<le> df_max_year \<and> str_int y \<notin> set (year_columns df))"
proof -
  have "transform_development_data fl country_code (Some df) df_min_year df_max_year = Inl e \<longleftrightarrow>
          loc_columns df (year_labels df_min_year df_max_year) = Inl e"
    by (simp split: sum.splits)
  also have "\<dots> \<longleftrightarrow> e = KeyError \<and>
     (\<exists>y. df_min_year \<le> y \<and> y \<le> df_max_year \<and> str_int y \<notin> set (year_columns df))"
    unfolding loc_columns_KeyError by (force simp: year_labels_def subset_iff)
  finally show ?thesis .
qed

theorem transform_development_data_raises_iff_witness:
  "transform_development_data exact_arithmetic ''PRI'' (Some example_wdi) 2024 2030 = Inl KeyError \<and>
   str_int 2024 \<notin> set (year_columns example_wdi)"
proof -
  have "str_int 2024 \<notin> set (year_columns example_wdi)"
    by (simp add: example_wdi_def str_int_def str_nat.simps digit_char_def)
  then show ?thesis
    using transform_development_data_raises_iff [of exact_arithmetic "''PRI''" example_wdi 2024 2030 KeyError]
    by auto
qed

text \<open>
  The claim as the specification states it fails: with the range 2023 to 2007 the
  function raises nothing and returns a table.
\<close>

theorem transform_development_data_invalid_range_counterexample:
  "transform_development_data exact_arithmetic ''PRI'' (Some example_wdi) 2023 2007 =
     Inr \<lparr>year_columns = [], rows = []\<rparr>"
  by (simp add: year_labels_def example_wdi_def loc_columns_def density_filter_def
      set_NaN_count_def filter_NaN_count_def drop_NaN_count_def isna_sum_def
      drop_all_zero_def all_zero_def resolve_gaps_def isna_any_def)

lemma resolve_gaps_names:
  "map Indicator_Name (rows (resolve_gaps fl df)) = map Indicator_Name (rows df)"
  by (simp add: resolve_gaps_def comp_def)

text \<open>
  Claim C3. In \<open>transform_development_data\<close> the density filter runs on the frame
  of the selected columns, and the table returned is what the all-zero filter and gap
  resolution make of its result. With \<open>N\<close> year columns in the selection, a row with
  at most \<open>N div 2\<close> missing year values stays through the density filter, the count
  \<open>N div 2\<close> itself included, and a row with \<open>N div 2 + 1\<close> or more is dropped. So
  the indicators of the table returned are, in their order, those of the selected rows
  with at most \<open>N div 2\<close> missing values that are not zero in every year.
\<close>

theorem density_filter_threshold:
  assumes "loc_columns development_data (year_labels df_min_year df_max_year) = Inr selected"
    and "r \<in> set (rows selected)"
    and "N = length (year_columns selected)"
  shows "transform_development_data fl country_code (Some development_data) df_min_year
           df_max_year = Inr (resolve_gaps fl (drop_all_zero (density_filter selected))) \<and>
         N = length (year_labels df_min_year df_max_year) \<and>
         (isna_sum (years r) \<le> N div 2 \<longrightarrow> r \<in> set (rows (density_filter selected))) \<and>
         (N div 2 + 1 \<le> isna_sum (years r) \<longrightarrow> r \<notin> set (rows (density_filter selected))) \<and>
         (\<exists>out. transform_development_data fl country_code (Some development_data) df_min_year
                   df_max_year = Inr out \<and>
                map Indicator_Name (rows out) =
                  map Indicator_Name
                    (filter (\<lambda>r. isna_sum (years r) \<le> N div 2 \<and> \<not> all_zero (years r))
                       (rows selected)))"
proof -
  have "map Indicator_Name (rows (resolve_gaps fl (drop_all_zero (density_filter selected)))) =
      map Indicator_Name
        (filter (\<lambda>r. isna_sum (years r) \<le> N div 2 \<and> \<not> all_zero (years r)) (rows selected))"
    using assms(3)
    by (simp add: resolve_gaps_names drop_all_zero_def density_filter_rows conj_commute)
  then show ?thesis
    using assms loc_columns_shape(1) [OF assms(1)] by (simp add: density_filter_rows)
qed

theorem density_filter_threshold_witness:
  "loc_columns example_wdi (year_labels 2018 2023) = Inr example_wdi_selected \<and>
   length (year_columns example_wdi_selected) = 6 \<and>
   isna_sum [None, Some 10, None, Some 20, Some 30, None] = 6 div 2 \<and>
   \<lparr>Country_Code = ''PRI'', Indicator_Name = ''GDP (current US$)'',
    years = [None, Some 10, None, Some 20, Some 30, None]\<rparr>
     \<in> set (rows (density_filter example_wdi_selected)) \<and>
   isna_sum [None, None, Some 10, None, Some 20, None] = 6 div 2 + 1 \<and>
   \<lparr>Country_Code = ''PRI'', Indicator_Name = ''Population, total'',
    years = [None, None, Some 10, None, Some 20, None]\<rparr>
     \<notin> set (rows (density_filter example_wdi_selected)) \<and>
   (\<exists>out. transform_development_data exact_arithmetic ''PRI'' (Some example_wdi) 2018 2023 =
            Inr out \<and>
          map Indicator_Name (rows out) = [''GDP (current US$)''])"
proof -
  let ?gdp = "\<lparr>Country_Code = ''PRI'', Indicator_Name = ''GDP (current US$)'',
    years = [None, Some 10, None, Some 20, Some 30, None]\<rparr>"
  let ?pop = "\<lparr>Country_Code = ''PRI'', Indicator_Name = ''Population, total'',
    years = [None, None, Some 10, None, Some 20, None]\<rparr>"
  have sel: "loc_columns example_wdi (year_labels 2018 2023) = Inr example_wdi_selected"
    by (simp add: year_labels_2018_2023 example_wdi_def example_wdi_selected_def loc_columns_def)
  have n: "6 = length (year_columns example_wdi_selected)"
    by (simp add: example_wdi_selected_def)
  have gdp: "?gdp \<in> set (rows example_wdi_selected)"
    and pop: "?pop \<in> set (rows example_wdi_selected)"
    by (simp_all add: example_wdi_selected_def)
  note g = density_filter_threshold [OF sel gdp n, of exact_arithmetic "''PRI''"]
  note p = density_filter_threshold [OF sel pop n, of exact_arithmetic "''PRI''"]
  have c1: "isna_sum [None, Some 10, None, Some 20, Some 30, None] = 6 div 2"
    and c2: "isna_sum [None, None, Some 10, None, Some 20, None] = 6 div 2 + 1"
    by (simp_all add: isna_sum_def)
  have in_gdp: "?gdp \<in> set (rows (density_filter example_wdi_selected))"
    using g [THEN conjunct2, THEN conjunct2, THEN conjunct1] c1 by simp
  have out_pop: "?pop \<notin> set (rows (density_filter example_wdi_selected))"
    using p [THEN conjunct2, THEN conjunct2, THEN conjunct2, THEN conjunct1] c2 by simp
  have names: "map Indicator_Name
       (filter (\<lambda>r. isna_sum (years r) \<le> 6 div 2 \<and> \<not> all_zero (years r))
          (rows example_wdi_selected)) = [''GDP (current US$)'']"
    by (simp add: example_wdi_selected_def isna_sum_def all_zero_def)
  from g [THEN conjunct2, THEN conjunct2, THEN conjunct2, THEN conjunct2]
  obtain out where out:
    "transform_development_data exact_arithmetic ''PRI'' (Some example_wdi) 2018 2023 = Inr out \<and>
     map Indicator_Name (rows out) =
       map Indicator_Name
         (filter (\<lambda>r. isna_sum (years r) \<le> 6 div 2 \<and> \<not> all_zero (years r))
            (rows example_wdi_selected))" ..
  have ex: "\<exists>out. transform_development_data exact_arithmetic ''PRI'' (Some example_wdi) 2018 2023 =
            Inr out \<and> map Indicator_Name (rows out) = [''GDP (current US$)'']"
    by (rule exI [of _ out]) (use out names in \<open>simp only: simp_thms\<close>)
  have len: "length (year_columns example_wdi_selected) = 6"
    by (simp add: example_wdi_selected_def)
  show ?thesis
    by (intro conjI sel len c1 in_gdp c2 out_pop ex)
qed

text \<open>
  Claim C7. The all-zero filter keeps a row exactly when some year cell of it is not
  the number 0. So a row whose cells are all 0 is dropped, a NaN is not a zero, and a
  row with a NaN stays even when every value it has is 0. In
  \<open>transform_development_data\<close> the filter runs on the frame the density filter
  returned, and gap resolution on what it leaves.
\<close>

theorem drop_all_zero_iff:
  "(r \<in> set (rows (drop_all_zero df)) \<longleftrightarrow>
      r \<in> set (rows df) \<and> (\<exists>c \<in> set (years r). c \<noteq> Some 0)) \<and>
   (loc_columns development_data (year_labels df_min_year df_max_year) = Inr selected \<longrightarrow>
      transform_development_data fl country_code (Some development_data) df_min_year df_max_year =
        Inr (resolve_gaps fl (drop_all_zero (density_filter selected))))"
  by (auto simp: drop_all_zero_def all_zero_def list_all_iff split: option.splits)

lemma example_wdi_selection:
  "loc_columns example_wdi (year_labels 2018 2023) = Inr example_wdi_selected"
  by (simp add: year_labels_2018_2023 example_wdi_def example_wdi_selected_def loc_columns_def)

theorem drop_all_zero_iff_witness:
  "loc_columns example_wdi (year_labels 2018 2023) = Inr example_wdi_selected \<and>
   transform_development_data exact_arithmetic ''PRI'' (Some example_wdi) 2018 2023 =
     Inr (resolve_gaps exact_arithmetic (drop_all_zero (density_filter example_wdi_selected))) \<and>
   \<lparr>Country_Code = ''PRI'', Indicator_Name = ''Net migration'',
    years = [Some 0, Some 0, Some 0, Some 0, Some 0, Some 0]\<rparr>
     \<in> set (rows (density_filter example_wdi_selected)) \<and>
   \<lparr>Country_Code = ''PRI'', Indicator_Name = ''Net migration'',
    years = [Some 0, Some 0, Some 0, Some 0, Some 0, Some 0]\<rparr>
     \<notin> set (rows (drop_all_zero (density_filter example_wdi_selected))) \<and>
   example_row [Some 0, Some 0, Some 0, Some 0, Some 0]
     \<notin> set (rows (drop_all_zero (density_filter example_selected))) \<and>
   example_row [Some 0, None, Some 0, Some 0, Some 0]
     \<in> set (rows (drop_all_zero (density_filter example_selected)))"
  using drop_all_zero_iff
          [of "\<lparr>Country_Code = ''PRI'', Indicator_Name = ''Net migration'',
                years = [Some 0, Some 0, Some 0, Some 0, Some 0, Some 0]\<rparr>"
              "density_filter example_wdi_selected"
              example_wdi 2018 2023 example_wdi_selected exact_arithmetic "''PRI''"]
        drop_all_zero_iff
          [of "example_row [Some 0, Some 0, Some 0, Some 0, Some 0]"
              "density_filter example_selected"]
        drop_all_zero_iff
          [of "example_row [Some 0, None, Some 0, Some 0, Some 0]"
              "density_filter example_selected"]
        example_wdi_selection
  by (simp add: density_filter_rows example_selected_def example_row_def isna_sum_def
      example_wdi_selected_def del: transform_development_data.simps)

text \<open>
  Claim C10. With \<open>df_min_year > df_max_year\<close> the list of year labels is empty, the
  selection succeeds and keeps every row with the two identity columns only, each row
  passes the density filter, the all-zero test holds of every row and drops it, and the
  function returns the frame without year columns and without rows.
\<close>

theorem transform_development_data_empty_range:
  assumes "df_max_year < df_min_year"
  shows "(\<exists>sel. loc_columns df (year_labels df_min_year df_max_year) = Inr sel \<and>
               year_columns sel = [] \<and> length (rows sel) = length (rows df) \<and>
               density_filter sel = sel \<and>
               rows (drop_all_zero (density_filter sel)) = []) \<and>
         transform_development_data fl country_code (Some df) df_min_year df_max_year =
           Inr \<lparr>year_columns = [], rows = []\<rparr>"
proof -
  from assms have labels: "year_labels df_min_year df_max_year = []"
    by (simp add: year_labels_def)
  define sel :: "id_row frame" where
    "sel = \<lparr>year_columns = [],
            rows = map (\<lambda>r. \<lparr>Country_Code = Country_Code r,
                              Indicator_Name = Indicator_Name r, years = []\<rparr>) (rows df)\<rparr>"
  have loc: "loc_columns df (year_labels df_min_year df_max_year) = Inr sel"
    by (simp add: labels loc_columns_def sel_def)
  have dens: "density_filter sel = sel"
    by (rule frame.equality)
       (simp_all add: density_filter_rows density_filter_columns,
        simp_all add: sel_def isna_sum_def comp_def)
  have zero: "rows (drop_all_zero sel) = []"
    by (simp add: drop_all_zero_def sel_def all_zero_def comp_def)
  have "resolve_gaps fl (drop_all_zero sel) = \<lparr>year_columns = [], rows = []\<rparr>"
    using zero by (simp add: resolve_gaps_def isna_any_def drop_all_zero_def sel_def)
  with loc dens zero show ?thesis by (simp add: sel_def)
qed

theorem transform_development_data_empty_range_witness:
  "(2007::int) < 2023 \<and> rows example_wdi \<noteq> [] \<and>
   transform_development_data exact_arithmetic ''PRI'' (Some example_wdi) 2023 2007 =
     Inr \<lparr>year_columns = [], rows = []\<rparr>"
  using transform_development_data_empty_range [of 2007 2023 example_wdi exact_arithmetic "''PRI''"]
  by (simp add: example_wdi_def)

subsection \<open>Gap resolution is what the specification describes\<close>

lemma valid_points_bounds:
  "(j, z) \<in> set (valid_points s cs) \<Longrightarrow> s \<le> j"
  by (induction s cs rule: valid_points.induct) auto

lemma np_interp_next:
  "j \<le> x \<Longrightarrow> i < j \<Longrightarrow> np_interp fl x (i, y) ((j, z) # ps) = np_interp fl x (j, z) ps"
  by simp

lemma np_interp_between:
  "i < x \<Longrightarrow> x < j \<Longrightarrow>
     np_interp fl x (i, a) ((j, b) # ps) =
       fl (fl (fl (fl (b - a) / fl (real j - real i)) * fl (real x - real i)) + a)"
  by simp

lemma np_interp_last: "np_interp fl x (i, a) [] = a"
  by simp

lemma map_enumerate_cong:
  assumes "\<And>x c. s \<le> x \<Longrightarrow> f (x, c) = g (x, c)"
  shows "map f (enumerate s cs) = map g (enumerate s cs)"
  by (rule map_cong [OF refl]) (auto simp: in_set_enumerate_eq assms)

lemma enumerate_replicate: "enumerate i (replicate m x) = map (\<lambda>k. (k, x)) [i..<i + m]"
  by (induction m arbitrary: i) (simp_all add: upt_rec)

lemma map_const_replicate:
  "(\<And>x. x \<in> set xs \<Longrightarrow> f x = c) \<Longrightarrow> map f xs = replicate (length xs) c"
  by (induction xs) auto

lemma upt_shift: "[Suc m..<Suc m + k] = map (\<lambda>j. m + j) [1..<Suc k]"
  by (induction k) simp_all

text \<open>The cells after a known value: interpolation gives what the specification says.\<close>

lemma interpolate_after_known:
  "map (\<lambda>(x, c). case c of Some v \<Rightarrow> Some v
                  | None \<Rightarrow> Some (np_interp fl x (i, a) (valid_points (Suc (i + k)) cs)))
       (enumerate (Suc i) (replicate k None @ cs)) =
   spec_after_known fl a k cs"
proof (induction cs arbitrary: i a k)
  case Nil
  have "map (\<lambda>x. Some a) [Suc i..<Suc i + k] = replicate k (Some a)"
    by (simp only: map_replicate_const length_upt add_diff_cancel_left')
  then show ?case
    by (simp add: enumerate_replicate comp_def)
next
  case (Cons c cs)
  show ?case
  proof (cases c)
    case None
    have eq: "replicate k None @ None # cs = replicate (Suc k) None @ cs"
      by (simp add: replicate_app_Cons_same)
    have vp: "valid_points (Suc (i + k)) (None # cs) = valid_points (Suc (i + Suc k)) cs"
      by simp
    show ?thesis
      unfolding None eq vp spec_after_known.simps by (rule Cons.IH)
  next
    case (Some b)
    let ?j = "Suc (i + k)"
    let ?rest = "valid_points (Suc ?j) cs"
    let ?f = "\<lambda>x. Some (np_interp fl x (i, a) ((?j, b) # ?rest)) :: real option"
    let ?F = "\<lambda>(x, c). case c of Some v \<Rightarrow> Some v | None \<Rightarrow> ?f x"
    have pending: "map ?F (enumerate (Suc i) (replicate k None)) =
        map (\<lambda>j. Some (line_value fl a b k j)) [1..<Suc k]"
    proof -
      have pt: "?f (i + j) = Some (line_value fl a b k j)" if "j \<in> set [1..<Suc k]" for j
      proof -
        from that have j: "i < i + j" "i + j < ?j" by auto
        have "real ?j - real i = real (k + 1)" "real (i + j) - real i = real j"
          by simp_all
        with np_interp_between [OF j, of fl a b ?rest] show ?thesis
          by (simp only: line_value_def)
      qed
      have "map ?F (enumerate (Suc i) (replicate k None)) = map ?f [Suc i..<Suc i + k]"
        by (simp add: enumerate_replicate comp_def)
      also have "\<dots> = map (\<lambda>j. ?f (i + j)) [1..<Suc k]"
        by (simp only: upt_shift map_map comp_def)
      also have "\<dots> = map (\<lambda>j. Some (line_value fl a b k j)) [1..<Suc k]"
        by (rule map_cong [OF refl]) (rule pt)
      finally show ?thesis .
    qed
    have later: "map ?F (enumerate (Suc ?j) cs) = spec_after_known fl b 0 cs"
    proof -
      have "map ?F (enumerate (Suc ?j) cs) =
          map (\<lambda>(x, c). case c of Some v \<Rightarrow> Some v
                | None \<Rightarrow> Some (np_interp fl x (?j, b) (valid_points (Suc (?j + 0)) cs)))
              (enumerate (Suc ?j) cs)"
        by (rule map_enumerate_cong) (simp split: option.splits)
      also have "\<dots> = spec_after_known fl b 0 cs"
        using Cons.IH [of ?j b 0] by simp
      finally show ?thesis .
    qed
    have "enumerate (Suc i) (replicate k None @ Some b # cs) =
        enumerate (Suc i) (replicate k None) @ (?j, Some b) # enumerate (Suc ?j) cs"
      by (simp add: enumerate_append_eq)
    then have all: "map ?F (enumerate (Suc i) (replicate k None @ Some b # cs)) =
        map (\<lambda>j. Some (line_value fl a b k j)) [1..<Suc k] @ Some b # spec_after_known fl b 0 cs"
      by (simp only: map_append list.map pending later) simp
    have vp: "valid_points (Suc (i + k)) (Some b # cs) = (?j, b) # ?rest"
      by simp
    show ?thesis
      unfolding Some vp spec_after_known.simps by (rule all)
  qed
qed

lemma spec_after_known_valid: "None \<notin> set (spec_after_known fl a k cs)"
  by (induction fl a k cs rule: spec_after_known.induct) auto

lemma spec_leading_split:
  "spec_leading fl m (replicate n None @ cs) = spec_leading fl (m + n) cs"
  by (induction n arbitrary: m) simp_all

lemma row_shape:
  "(\<exists>m. cs = replicate m None) \<or> (\<exists>m a cs'. cs = replicate m None @ Some a # cs')"
proof (induction cs)
  case Nil
  then show ?case by simp
next
  case (Cons c cs)
  show ?case
  proof (cases c)
    case None
    from Cons.IH show ?thesis
    proof
      assume "\<exists>m. cs = replicate m None"
      then obtain m where "cs = replicate m None" ..
      then have "c # cs = replicate (Suc m) None" using None by simp
      then show ?thesis by blast
    next
      assume "\<exists>m a cs'. cs = replicate m None @ Some a # cs'"
      then obtain m a cs' where "cs = replicate m None @ Some a # cs'" by blast
      then have "c # cs = replicate (Suc m) None @ Some a # cs'" using None by simp
      then show ?thesis by blast
    qed
  next
    case (Some a)
    then have "c # cs = replicate 0 None @ Some a # cs" by simp
    then show ?thesis by blast
  qed
qed

lemma valid_points_leading: "valid_points i (replicate m None @ cs) = valid_points (i + m) cs"
  by (induction m arbitrary: i) simp_all

lemma valid_points_all_nan: "valid_points i (replicate m None) = []"
  using valid_points_leading [of i m "[]"] by simp

lemma bfill_1d_leading:
  "bfill_1d (replicate m None @ Some a # cs) = replicate m (Some a) @ Some a # bfill_1d cs"
  by (induction m) (simp_all add: replicate_app_Cons_same)

lemma bfill_1d_all_nan: "bfill_1d (replicate m None) = replicate m None"
proof (induction m)
  case 0
  show ?case by simp
next
  case (Suc m)
  then show ?case by (cases m) simp_all
qed

lemma ffill_from_all_nan: "ffill_from None (replicate m None) = replicate m None"
  by (induction m) simp_all

lemma bfill_1d_valid: "None \<notin> set cs \<Longrightarrow> bfill_1d cs = cs"
  by (induction cs rule: bfill_1d.induct) auto

lemma ffill_from_id: "None \<notin> set cs \<Longrightarrow> ffill_from p cs = cs"
  by (induction p cs rule: ffill_from.induct) auto

lemma interpolate_1d_known:
  "interpolate_1d fl (replicate m None @ Some a # cs) =
     replicate m None @ Some a # spec_after_known fl a 0 cs"
proof -
  let ?row = "replicate m None @ Some a # cs"
  let ?ps = "valid_points (Suc m) cs"
  let ?F = "\<lambda>(k, c). case c of Some v \<Rightarrow> Some v
                  | None \<Rightarrow> if k < m then None else Some (np_interp fl k (m, a) ?ps)"
  have vp: "valid_points 0 ?row = (m, a) # ?ps"
    by (simp add: valid_points_leading)
  have lead: "map ?F (enumerate 0 (replicate m None)) = replicate m None"
  proof -
    have "map ?F (enumerate 0 (replicate m None)) = map (\<lambda>k. None) [0..<m]"
      by (simp add: enumerate_replicate comp_def cong: map_cong)
    then show ?thesis by (simp add: map_replicate_const)
  qed
  have "map ?F (enumerate (Suc m) cs) =
      map (\<lambda>(x, c). case c of Some v \<Rightarrow> Some v
              | None \<Rightarrow> Some (np_interp fl x (m, a) (valid_points (Suc (m + 0)) cs)))
          (enumerate (Suc m) cs)"
    by (rule map_enumerate_cong) (simp split: option.splits)
  also have "\<dots> = spec_after_known fl a 0 cs"
    using interpolate_after_known [of fl m a 0 cs] by simp
  finally have rest: "map ?F (enumerate (Suc m) cs) = spec_after_known fl a 0 cs" .
  have "enumerate 0 ?row = enumerate 0 (replicate m None) @ (m, Some a) # enumerate (Suc m) cs"
    by (simp add: enumerate_append_eq)
  then have "map ?F (enumerate 0 ?row) = replicate m None @ Some a # spec_after_known fl a 0 cs"
    by (simp only: map_append list.map lead rest) simp
  then show ?thesis
    unfolding interpolate_1d_def vp by simp
qed

lemma fill_row_is_spec_gap_resolution: "fill_row fl cs = spec_gap_resolution fl cs"
proof -
  from row_shape [of cs] show ?thesis
  proof
    assume "\<exists>m. cs = replicate m None"
    then obtain m where cs: "cs = replicate m None" ..
    have "spec_leading fl 0 (replicate m None @ []) = replicate m None"
      by (simp only: spec_leading_split) simp
    then show ?thesis
      by (simp add: cs fill_row_def interpolate_1d_def valid_points_all_nan bfill_1d_all_nan
          ffill_1d_def ffill_from_all_nan spec_gap_resolution_def)
  next
    assume "\<exists>m a cs'. cs = replicate m None @ Some a # cs'"
    then obtain m a cs' where cs: "cs = replicate m None @ Some a # cs'" by blast
    let ?rest = "spec_after_known fl a 0 cs'"
    have rest: "None \<notin> set ?rest" by (rule spec_after_known_valid)
    have "bfill_1d (replicate m None @ Some a # ?rest) = replicate m (Some a) @ Some a # ?rest"
      using bfill_1d_valid [OF rest] by (simp only: bfill_1d_leading)
    moreover have "None \<notin> set (replicate m (Some a) @ Some a # ?rest)"
      using rest by auto
    ultimately have "fill_row fl cs = replicate m (Some a) @ Some a # ?rest"
      unfolding cs fill_row_def ffill_1d_def interpolate_1d_known
      using ffill_from_id by simp
    moreover have "spec_leading fl 0 (replicate m None @ Some a # cs') =
        replicate m (Some a) @ Some a # ?rest"
      by (simp only: spec_leading_split) simp
    ultimately show ?thesis by (simp add: cs spec_gap_resolution_def)
  qed
qed

lemma spec_after_known_id: "None \<notin> set cs \<Longrightarrow> spec_after_known fl a 0 cs = cs"
proof (induction cs arbitrary: a)
  case Nil
  show ?case by simp
next
  case (Cons c cs)
  then show ?case by (cases c) auto
qed

lemma spec_gap_resolution_valid: "None \<notin> set cs \<Longrightarrow> spec_gap_resolution fl cs = cs"
proof (cases cs)
  case Nil
  then show ?thesis by (simp add: spec_gap_resolution_def)
next
  case (Cons c cs')
  assume "None \<notin> set cs"
  with Cons show ?thesis
    by (cases c) (auto simp: spec_gap_resolution_def spec_after_known_id)
qed

lemma resolve_gaps_is_spec:
  "resolve_gaps fl df = df\<lparr>rows := map (\<lambda>r. r\<lparr>years := spec_gap_resolution fl (years r)\<rparr>) (rows df)\<rparr>"
proof (cases "isna_any df")
  case True
  then show ?thesis by (simp add: resolve_gaps_def fill_row_is_spec_gap_resolution)
next
  case False
  then have "\<And>r. r \<in> set (rows df) \<Longrightarrow> None \<notin> set (years r)"
    by (auto simp: isna_any_def list_ex_iff)
  then have "map (\<lambda>r. r\<lparr>years := spec_gap_resolution fl (years r)\<rparr>) (rows df) = rows df"
    by (simp add: spec_gap_resolution_valid map_idI)
  with False show ?thesis by (simp add: resolve_gaps_def)
qed

lemma line_value_exact: "line_value (\<lambda>x. x) a b k j = a + (b - a) * real j / real (k + 1)"
  by (simp add: line_value_def)

lemma spec_after_known_pending:
  "spec_after_known fl a j (replicate k None @ cs) = spec_after_known fl a (j + k) cs"
  by (induction k arbitrary: j) simp_all

lemma spec_gap_resolution_two_known:
  "spec_gap_resolution fl
     (replicate m None @ Some a # replicate k None @ Some b # replicate n None) =
   replicate m (Some a) @ Some a # map (\<lambda>j. Some (line_value fl a b k j)) [1..<Suc k] @
   Some b # replicate n (Some b)"
proof -
  have trail: "spec_after_known fl b 0 (replicate n None) = replicate n (Some b)"
    using spec_after_known_pending [of fl b 0 n "[]"] by simp
  have inner: "spec_after_known fl a 0 (replicate k None @ Some b # replicate n None) =
      map (\<lambda>j. Some (line_value fl a b k j)) [1..<Suc k] @ Some b # replicate n (Some b)"
    using spec_after_known_pending [of fl a 0 k "Some b # replicate n None"]
    by (simp add: trail del: upt_Suc)
  show ?thesis
    unfolding spec_gap_resolution_def spec_leading_split
    by (simp add: inner del: upt_Suc)
qed

lemma three_gaps_selection:
  "loc_columns three_gaps_table (year_labels 2018 2023) =
     Inr \<lparr>year_columns = [''2018'', ''2019'', ''2020'', ''2021'', ''2022'', ''2023''],
          rows = [\<lparr>Country_Code = ''PRI'', Indicator_Name = ''Example'',
                   years = [None, Some 10, None, Some 20, Some 30, None]\<rparr>]\<rparr>"
  by (simp add: year_labels_2018_2023 three_gaps_table_def loc_columns_def)

lemma three_gaps_resolved:
  assumes "exact_on_integers fl"
  shows "spec_gap_resolution fl [None, Some 10, None, Some 20, Some 30, None] =
           [Some 10, Some 10, Some 15, Some 20, Some 30, Some 30]"
proof -
  have fl: "fl (real_of_int n) = real_of_int n" if "\<bar>n\<bar> \<le> 2 ^ 53" for n
    using assms that by (simp add: exact_on_integers_def)
  have "fl 10 = 10" "fl 2 = 2" "fl 5 = 5" "fl 1 = 1" "fl 15 = 15"
    using fl [of 10] fl [of 2] fl [of 5] fl [of 1] fl [of 15] by simp_all
  then have "line_value fl 10 20 1 1 = 15"
    by (simp add: line_value_def)
  then show ?thesis
    by (simp add: spec_gap_resolution_def)
qed

text \<open>
  Claim C6, as the code has it. Gap resolution is a function of the row, and on every
  row it does what the specification describes: a value that is present stays, a
  leading gap takes the first value present, a trailing gap the last, and the \<open>j\<close>-th
  of \<open>k\<close> gaps between two values \<open>a\<close> and \<open>b\<close> takes the point of the line from
  \<open>a\<close> to \<open>b\<close>, \<open>a + (b - a) * j / (k + 1)\<close> in exact arithmetic and the float64
  evaluation of \<open>numpy.interp\<close> otherwise. In \<open>transform_development_data\<close> it
  runs on the rows that the density filter and the all-zero filter kept. The row
  \<open>[NaN, 10, NaN, 20, 30, NaN]\<close> for 2018 to 2023 comes out as
  \<open>[10, 10, 15, 20, 30, 30]\<close> under every rounding that is exact on integers.
\<close>

theorem gap_resolution_in_transform:
  assumes "loc_columns development_data (year_labels df_min_year df_max_year) = Inr selected"
  shows "transform_development_data fl country_code (Some development_data) df_min_year
           df_max_year =
           Inr ((drop_all_zero (density_filter selected))
                  \<lparr>rows := map (\<lambda>r. r\<lparr>years := spec_gap_resolution fl (years r)\<rparr>)
                                (rows (drop_all_zero (density_filter selected)))\<rparr>) \<and>
         fill_row fl cs = spec_gap_resolution fl cs \<and>
         spec_gap_resolution fl
             (replicate m None @ Some a # replicate k None @ Some b # replicate n None) =
           replicate m (Some a) @ Some a #
           map (\<lambda>j. Some (line_value fl a b k j)) [1..<Suc k] @
           Some b # replicate n (Some b) \<and>
         line_value exact_arithmetic a b k j = a + (b - a) * real j / real (k + 1) \<and>
         (exact_on_integers fl \<longrightarrow>
            transform_development_data fl ''PRI'' (Some three_gaps_table) 2018 2023 =
              Inr \<lparr>year_columns = [''2018'', ''2019'', ''2020'', ''2021'', ''2022'', ''2023''],
                   rows = [\<lparr>Country_Code = ''PRI'', Indicator_Name = ''Example'',
                            years = [Some 10, Some 10, Some 15, Some 20, Some 30, Some 30]\<rparr>]\<rparr>)"
proof (intro conjI impI)
  show "transform_development_data fl country_code (Some development_data) df_min_year
           df_max_year =
           Inr ((drop_all_zero (density_filter selected))
                  \<lparr>rows := map (\<lambda>r. r\<lparr>years := spec_gap_resolution fl (years r)\<rparr>)
                                (rows (drop_all_zero (density_filter selected)))\<rparr>)"
    using assms by (simp add: resolve_gaps_is_spec)
  show "fill_row fl cs = spec_gap_resolution fl cs"
    by (rule fill_row_is_spec_gap_resolution)
  show "spec_gap_resolution fl
             (replicate m None @ Some a # replicate k None @ Some b # replicate n None) =
           replicate m (Some a) @ Some a #
           map (\<lambda>j. Some (line_value fl a b k j)) [1..<Suc k] @
           Some b # replicate n (Some b)"
    by (rule spec_gap_resolution_two_known)
  show "line_value exact_arithmetic a b k j = a + (b - a) * real j / real (k + 1)"
    by (simp add: line_value_def exact_arithmetic_def)
  assume "exact_on_integers fl"
  then show "transform_development_data fl ''PRI'' (Some three_gaps_table) 2018 2023 =
              Inr \<lparr>year_columns = [''2018'', ''2019'', ''2020'', ''2021'', ''2022'', ''2023''],
                   rows = [\<lparr>Country_Code = ''PRI'', Indicator_Name = ''Example'',
                            years = [Some 10, Some 10, Some 15, Some 20, Some 30, Some 30]\<rparr>]\<rparr>"
    by (simp add: three_gaps_selection resolve_gaps_is_spec three_gaps_resolved
        density_filter_rows density_filter_columns isna_sum_def drop_all_zero_def all_zero_def)
qed

lemma exact_arithmetic_on_integers: "exact_on_integers exact_arithmetic"
  by (simp add: exact_on_integers_def exact_arithmetic_def)

theorem gap_resolution_in_transform_witness:
  "exact_on_integers exact_arithmetic \<and>
   loc_columns three_gaps_table (year_labels 2018 2023) =
     Inr \<lparr>year_columns = [''2018'', ''2019'', ''2020'', ''2021'', ''2022'', ''2023''],
          rows = [\<lparr>Country_Code = ''PRI'', Indicator_Name = ''Example'',
                   years = [None, Some 10, None, Some 20, Some 30, None]\<rparr>]\<rparr> \<and>
   transform_development_data exact_arithmetic ''PRI'' (Some three_gaps_table) 2018 2023 =
     Inr \<lparr>year_columns = [''2018'', ''2019'', ''2020'', ''2021'', ''2022'', ''2023''],
          rows = [\<lparr>Country_Code = ''PRI'', Indicator_Name = ''Example'',
                   years = [Some 10, Some 10, Some 15, Some 20, Some 30, Some 30]\<rparr>]\<rparr>"
proof -
  note t = gap_resolution_in_transform
    [OF three_gaps_selection, of exact_arithmetic "''PRI''",
     THEN conjunct2, THEN conjunct2, THEN conjunct2, THEN conjunct2, rule_format,
     OF exact_arithmetic_on_integers]
  show ?thesis
    by (intro conjI exact_arithmetic_on_integers three_gaps_selection t)
qed

text \<open>
  The example of the specification fails on the function: the row
  \<open>[NaN, NaN, 10, NaN, 20, NaN]\<close> has four of six years missing, more than
  \<open>6 // 2\<close>, so the density filter drops it and the table returned has no row.
\<close>

theorem spec_example_row_dropped_counterexample:
  "isna_sum [None, None, Some 10, None, Some 20, None] = 4 \<and>
   transform_development_data exact_arithmetic ''PRI'' (Some spec_example_table) 2018 2023 =
     Inr \<lparr>year_columns = [''2018'', ''2019'', ''2020'', ''2021'', ''2022'', ''2023''],
          rows = []\<rparr>"
  by (simp add: year_labels_2018_2023 spec_example_table_def loc_columns_def density_filter_def
      set_NaN_count_def filter_NaN_count_def drop_NaN_count_def isna_sum_def
      drop_all_zero_def resolve_gaps_def isna_any_def)

section \<open>Properties of the disaster transformer\<close>

lemma transform_disaster_data_filter:
  "transform_disaster_data country_code disaster_data df_min_year df_max_year min_total_affected =
     filter (\<lambda>r. df_min_year \<le> Start_Year r \<and> Start_Year r \<le> df_max_year \<and>
                 Magnitude_Scale r = Some ''Kph'' \<and> ge_cell (Magnitude r) 178 \<and>
                 ge_cell (Total_Affected r) (float64_of_int min_total_affected))
            disaster_data"
  by (simp add: transform_disaster_data_def conj_commute conj_left_commute cong: conj_cong)

lemma float64_of_int_exact:
  "\<bar>i\<bar> \<le> 2 ^ 53 \<Longrightarrow> float64_of_int i = real_of_int i"
  by (auto simp: float64_of_int_def round_to_53_bits_def nat_le_iff)

lemma bit_length_tie: "bit_length 9007199254740993 = 54"
  by (simp add: bit_length.simps)

lemma round_to_53_bits_tie: "round_to_53_bits 9007199254740993 = 9007199254740992"
  by (simp add: round_to_53_bits_def bit_length_tie)

lemma float64_of_int_tie: "float64_of_int 9007199254740993 = 9007199254740992"
  by (simp add: float64_of_int_def round_to_53_bits_tie)

text \<open>
  Claim C4, as the code has it. For a threshold in the range of a 64-bit integer the
  table returned holds, in their order, exactly the events whose start year lies in
  \<open>[df_min_year, df_max_year]\<close>, whose magnitude scale is the wind-speed scale
  \<open>'Kph'\<close>, whose magnitude is at least 178 and whose total of people affected is at
  least the threshold as converted to float64. For a threshold of magnitude up to
  \<open>2^53\<close> the conversion changes nothing, and then an event that meets the year and
  magnitude tests is left out when its total is one below the threshold and kept
  when it equals the threshold.
\<close>

theorem transform_disaster_data_conjunction:
  assumes "\<bar>min_total_affected\<bar> < 2 ^ 63"
  shows
  "transform_disaster_data country_code disaster_data df_min_year df_max_year min_total_affected =
     filter (\<lambda>r. df_min_year \<le> Start_Year r \<and> Start_Year r \<le> df_max_year \<and>
                 Magnitude_Scale r = Some ''Kph'' \<and>
                 (\<exists>m. Magnitude r = Some m \<and> 178 \<le> m) \<and>
                 (\<exists>t. Total_Affected r = Some t \<and> float64_of_int min_total_affected \<le> t))
            disaster_data
   \<and>
   (\<bar>min_total_affected\<bar> \<le> 2 ^ 53 \<longrightarrow>
      float64_of_int min_total_affected = real_of_int min_total_affected)
   \<and>
   (\<bar>min_total_affected\<bar> \<le> 2 ^ 53 \<and>
    df_min_year \<le> Start_Year e \<and> Start_Year e \<le> df_max_year \<and>
    Magnitude_Scale e = Some ''Kph'' \<and> Magnitude e = Some m \<and> 178 \<le> m \<longrightarrow>
      transform_disaster_data country_code
          [e\<lparr>Total_Affected := Some (real_of_int min_total_affected - 1)\<rparr>]
          df_min_year df_max_year min_total_affected = [] \<and>
      transform_disaster_data country_code
          [e\<lparr>Total_Affected := Some (real_of_int min_total_affected)\<rparr>]
          df_min_year df_max_year min_total_affected =
        [e\<lparr>Total_Affected := Some (real_of_int min_total_affected)\<rparr>])"
proof -
  have "ge_cell c b \<longleftrightarrow> (\<exists>x. c = Some x \<and> b \<le> x)" for c b
    by (cases c) (simp_all add: ge_cell_def)
  then show ?thesis
    by (auto simp: transform_disaster_data_filter float64_of_int_exact)
qed

theorem transform_disaster_data_conjunction_witness:
  "\<bar>500000 :: int\<bar> < 2 ^ 63 \<and> \<bar>500000 :: int\<bar> \<le> 2 ^ 53 \<and>
   float64_of_int 500000 = 500000 \<and>
   transform_disaster_data ''PRI'' [example_event 499999] 2007 2023 500000 = [] \<and>
   transform_disaster_data ''PRI'' [example_event 500000] 2007 2023 500000 =
     [example_event 500000]"
  using transform_disaster_data_conjunction
          [of 500000 "''PRI''" "[]" 2007 2023 "example_event 0" 250]
  by (simp add: example_event_def)

text \<open>
  The claim as stated fails for a threshold that float64 cannot represent: with
  \<open>min_total_affected = 2^53 + 1\<close> the conversion gives \<open>2^53\<close>, and the event with
  \<open>2^53\<close> people affected, one below the threshold, is kept.
\<close>

theorem transform_disaster_data_rounded_threshold_counterexample:
  "(2 :: int) ^ 53 + 1 = 9007199254740993 \<and>
   real_of_int 9007199254740993 - 1 = 9007199254740992 \<and>
   transform_disaster_data ''PRI'' [example_event 9007199254740992] 2007 2023 9007199254740993 =
     [example_event 9007199254740992]"
  by (simp add: transform_disaster_data_filter float64_of_int_tie ge_cell_def example_event_def)

section \<open>Frame properties over the store\<close>

lemmas heap_steps =
  then_do_def return_value_def py_copy_def py_loc_columns_def py_num_year_columns_def
  py_set_NaN_count_def py_filter_NaN_count_def py_drop_NaN_count_def py_drop_all_zero_def
  py_resolve_gaps_def py_select_rows_def

lemma transform_development_data_heap_run:
  assumes "h ! a = WDI df"
  shows "transform_development_data_heap fl country_code a df_min_year df_max_year h =
    (case loc_columns df (year_labels df_min_year df_max_year) of
       Inl e \<Rightarrow> (Inl e, h @ [WDI df])
     | Inr sel \<Rightarrow>
         (Inr (length h + 4),
          h @ [WDI df,
               Counted (set_NaN_count sel),
               Counted (filter_NaN_count (length (year_columns sel) div 2) (set_NaN_count sel)),
               Selected (density_filter sel),
               Selected (resolve_gaps fl (drop_all_zero (density_filter sel)))]))"
  using assms
  by (simp add: transform_development_data_heap_def heap_steps nth_append
      list_update_append density_filter_def resolve_gaps_def split: sum.splits)

lemma transform_development_data_heap_agrees:
  assumes "h ! a = WDI df"
  shows "case transform_development_data_heap fl country_code a df_min_year df_max_year h of
           (Inl e, h') \<Rightarrow>
             transform_development_data fl country_code (Some df) df_min_year df_max_year = Inl e
         | (Inr r, h') \<Rightarrow>
             transform_development_data fl country_code (Some df) df_min_year df_max_year =
               (case h' ! r of Selected out \<Rightarrow> Inr out | _ \<Rightarrow> Inl KeyError)"
  by (simp add: transform_development_data_heap_run [OF assms] nth_append split: sum.splits)

lemma transform_development_data_heap_other:
  assumes "\<And>df. h ! a \<noteq> WDI df"
  shows "transform_development_data_heap fl country_code a df_min_year df_max_year h =
    (case h ! a of NoneObj \<Rightarrow> (Inl AttributeError, h) | obj \<Rightarrow> (Inl KeyError, h @ [obj]))"
proof (cases "h ! a")
  case (WDI df)
  with assms show ?thesis by blast
qed (simp_all add: transform_development_data_heap_def heap_steps)

lemma transform_disaster_data_heap_run:
  assumes "h ! a = EMDAT t"
  shows "transform_disaster_data_heap country_code a df_min_year df_max_year min_total_affected h =
     (Inr (length h + 3),
      h @ [EMDAT t,
           EMDAT (filter (\<lambda>r. df_min_year \<le> Start_Year r \<and> Start_Year r \<le> df_max_year) t),
           EMDAT (filter (\<lambda>r. Magnitude_Scale r = Some ''Kph'' \<and> ge_cell (Magnitude r) 178)
                   (filter (\<lambda>r. df_min_year \<le> Start_Year r \<and> Start_Year r \<le> df_max_year) t)),
           EMDAT (transform_disaster_data country_code t df_min_year df_max_year
                    min_total_affected)])"
  using assms
  by (simp add: transform_disaster_data_heap_def heap_steps nth_append
      transform_disaster_data_def)

lemma transform_disaster_data_heap_other:
  assumes "\<And>t. h ! a \<noteq> EMDAT t"
  shows "transform_disaster_data_heap country_code a df_min_year df_max_year min_total_affected h =
    (case h ! a of NoneObj \<Rightarrow> (Inl AttributeError, h) | obj \<Rightarrow> (Inl KeyError, h @ [obj]))"
proof (cases "h ! a")
  case (EMDAT t)
  with assms show ?thesis by blast
qed (simp_all add: transform_disaster_data_heap_def heap_steps)

lemma transform_development_data_heap_frame:
  "\<exists>new. snd (transform_development_data_heap fl country_code a df_min_year df_max_year h) = h @ new"
proof (cases "\<exists>df. h ! a = WDI df")
  case True
  then obtain df where "h ! a = WDI df" by blast
  then show ?thesis
    by (simp add: transform_development_data_heap_run split: sum.splits)
next
  case False
  then show ?thesis
    by (cases "h ! a") (simp_all add: transform_development_data_heap_other)
qed

lemma transform_disaster_data_heap_frame:
  "\<exists>new. snd (transform_disaster_data_heap country_code a df_min_year df_max_year
                 min_total_affected h) = h @ new"
proof (cases "\<exists>t. h ! a = EMDAT t")
  case True
  then obtain t where "h ! a = EMDAT t" by blast
  then show ?thesis
    by (simp add: transform_disaster_data_heap_run)
next
  case False
  then show ?thesis
    by (cases "h ! a") (simp_all add: transform_disaster_data_heap_other)
qed

text \<open>
  Claim C9. Whatever object the caller passes, at whatever address, and whatever else
  the store holds, after \<open>transform_development_data\<close> and after
  \<open>transform_disaster_data\<close> the object at that address is the one that was there,
  and so is every other object that existed before the call: both functions only add
  objects, and the two in-place assignments of \<open>transform_development_data\<close> write
  into objects the function itself created. On a table the address returned holds the
  table that the functions of the sections above compute.
\<close>

theorem transformers_leave_input_unchanged:
  assumes "a < length h"
  shows "snd (transform_development_data_heap fl country_code a df_min_year df_max_year h) ! a = h ! a \<and>
         take (length h)
           (snd (transform_development_data_heap fl country_code a df_min_year df_max_year h)) = h \<and>
         snd (transform_disaster_data_heap country_code a df_min_year df_max_year
                min_total_affected h) ! a = h ! a \<and>
         take (length h)
           (snd (transform_disaster_data_heap country_code a df_min_year df_max_year
                   min_total_affected h)) = h"
proof -
  obtain new1 where
    "snd (transform_development_data_heap fl country_code a df_min_year df_max_year h) = h @ new1"
    using transform_development_data_heap_frame by blast
  moreover obtain new2 where
    "snd (transform_disaster_data_heap country_code a df_min_year df_max_year
            min_total_affected h) = h @ new2"
    using transform_disaster_data_heap_frame by blast
  ultimately show ?thesis using assms by (simp add: nth_append)
qed

theorem transformers_leave_input_unchanged_witness:
  "fst (transform_development_data_heap exact_arithmetic ''PRI'' 0 2018 2023
          [WDI example_wdi, EMDAT [example_event 1, example_event 500000]]) = Inr 6 \<and>
   snd (transform_development_data_heap exact_arithmetic ''PRI'' 0 2018 2023
          [WDI example_wdi, EMDAT [example_event 1, example_event 500000]]) ! 0 = WDI example_wdi \<and>
   snd (transform_development_data_heap exact_arithmetic ''PRI'' 0 2018 2023
          [WDI example_wdi, EMDAT [example_event 1, example_event 500000]]) ! 6 =
     Selected example_transformed \<and>
   fst (transform_disaster_data_heap ''PRI'' 1 2007 2023 500000
          [WDI example_wdi, EMDAT [example_event 1, example_event 500000]]) = Inr 5 \<and>
   snd (transform_disaster_data_heap ''PRI'' 1 2007 2023 500000
          [WDI example_wdi, EMDAT [example_event 1, example_event 500000]]) ! 1 =
     EMDAT [example_event 1, example_event 500000] \<and>
   snd (transform_disaster_data_heap ''PRI'' 1 2007 2023 500000
          [WDI example_wdi, EMDAT [example_event 1, example_event 500000]]) ! 5 =
     EMDAT [example_event 500000]"
proof -
  let ?h = "[WDI example_wdi, EMDAT [example_event 1, example_event 500000]]"
  have dev: "transform_development_data_heap exact_arithmetic ''PRI'' 0 2018 2023 ?h =
      (case loc_columns example_wdi (year_labels 2018 2023) of
         Inl e \<Rightarrow> (Inl e, ?h @ [WDI example_wdi])
       | Inr sel \<Rightarrow>
         (Inr (length ?h + 4),
          ?h @ [WDI example_wdi,
               Counted (set_NaN_count sel),
               Counted (filter_NaN_count (length (year_columns sel) div 2) (set_NaN_count sel)),
               Selected (density_filter sel),
               Selected (resolve_gaps exact_arithmetic (drop_all_zero (density_filter sel)))]))"
    by (rule transform_development_data_heap_run) simp
  have pure: "transform_development_data exact_arithmetic ''PRI'' (Some example_wdi) 2018 2023 = Inr example_transformed"
    by (rule transform_example)
  have dis: "transform_disaster_data_heap ''PRI'' 1 2007 2023 500000 ?h =
     (Inr (length ?h + 3),
      ?h @ [EMDAT [example_event 1, example_event 500000],
           EMDAT (filter (\<lambda>r. 2007 \<le> Start_Year r \<and> Start_Year r \<le> 2023) [example_event 1, example_event 500000]),
           EMDAT (filter (\<lambda>r. Magnitude_Scale r = Some ''Kph'' \<and> ge_cell (Magnitude r) 178)
                   (filter (\<lambda>r. 2007 \<le> Start_Year r \<and> Start_Year r \<le> 2023) [example_event 1, example_event 500000])),
           EMDAT (transform_disaster_data ''PRI'' [example_event 1, example_event 500000] 2007 2023 500000)])"
    by (rule transform_disaster_data_heap_run) simp
  have pure2: "transform_disaster_data ''PRI'' [example_event 1, example_event 500000] 2007 2023 500000 = [example_event 500000]"
    by (simp add: transform_disaster_data_def example_event_def ge_cell_def float64_of_int_exact)
  show ?thesis
    using transformers_leave_input_unchanged [of 0 ?h exact_arithmetic "''PRI''" 2018 2023 500000]
          transformers_leave_input_unchanged [of 1 ?h exact_arithmetic "''PRI''" 2007 2023 500000]
          pure pure2
    unfolding dev dis
    by (auto split: sum.splits)
qed

section \<open>Properties of the report renderer\<close>

lemma report_loop_pages:
  "pages (report_loop draw cc columns year_cols dis n_total irs pdf) =
     pages pdf @
     map (\<lambda>ir. indicator_chart cc columns year_cols dis (snd ir))
         (filter (gets_page draw cc columns year_cols dis) irs)"
proof (induction irs arbitrary: pdf)
  case Nil
  then show ?case by simp
next
  case (Cons ir irs)
  obtain i row where ir: "ir = (i, row)" by (cases ir)
  show ?case
    unfolding ir
    by (simp add: Cons.IH gets_page_def Let_def split: option.splits)
qed

lemma plot_errors_append: "plot_errors (xs @ ys) = plot_errors xs @ plot_errors ys"
  by (induction xs rule: plot_errors.induct) simp_all

lemma report_loop_errors:
  "plot_errors (printed (report_loop draw cc columns year_cols dis n_total irs pdf)) =
     plot_errors (printed pdf) @
     concat (map (\<lambda>ir. if all_missing (year_values columns (snd ir)) then []
                       else case draw (fst ir) (indicator_chart cc columns year_cols dis (snd ir)) of
                              None \<Rightarrow> []
                            | Some e \<Rightarrow> [(Indicator_Name (snd ir), e)]) irs)"
proof (induction irs arbitrary: pdf)
  case Nil
  then show ?case by simp
next
  case (Cons ir irs)
  obtain i row where ir: "ir = (i, row)" by (cases ir)
  show ?case
    unfolding ir
    by (simp add: Cons.IH Let_def plot_errors_append split: option.splits)
qed

text \<open>
  Claim C5. Once the report is open (the table has a year column), no failure of the
  plotting calls stops \<open>generate_report\<close>: it returns a document whatever \<open>draw\<close>
  does. The pages of the document are the charts of exactly the indicators that were
  neither skipped for missing data nor failed to draw, in the order of the rows of the
  table, and for each indicator that failed to draw, and for no other, an error line
  with its name and the exception is printed, in the same order.
\<close>

theorem generate_report_isolates_failures:
  assumes "filter isdigit (year_columns dev_data) \<noteq> []"
  shows "\<exists>pdf. generate_report country_code dev_data dis_data draw = Inr pdf \<and>
           pages pdf =
             map (\<lambda>ir. indicator_chart country_code (year_columns dev_data)
                         (filter isdigit (year_columns dev_data)) dis_data (snd ir))
                 (filter (gets_page draw country_code (year_columns dev_data)
                            (filter isdigit (year_columns dev_data)) dis_data)
                         (enumerate 1 (rows dev_data))) \<and>
           plot_errors (printed pdf) =
             concat (map (\<lambda>ir. if all_missing (year_values (year_columns dev_data) (snd ir))
                               then []
                               else case draw (fst ir)
                                      (indicator_chart country_code (year_columns dev_data)
                                         (filter isdigit (year_columns dev_data)) dis_data
                                         (snd ir)) of
                                      None \<Rightarrow> []
                                    | Some e \<Rightarrow> [(Indicator_Name (snd ir), e)])
                         (enumerate 1 (rows dev_data)))"
  using assms
  by (simp add: generate_report_def Let_def report_loop_pages report_loop_errors
      plot_errors_append)

theorem generate_report_isolates_failures_witness:
  "\<exists>pdf. generate_report ''PRI'' five_indicators [] fails_on_third = Inr pdf \<and>
         map chart_title (pages pdf) = [''PRI: One'', ''PRI: Two'', ''PRI: Four'', ''PRI: Five''] \<and>
         plot_errors (printed pdf) = [(''Three'', ValueError)]"
proof -
  have "filter isdigit (year_columns five_indicators) \<noteq> []"
    by (simp add: five_indicators_def isdigit_def)
  from generate_report_isolates_failures [OF this, of "''PRI''" "[]" fails_on_third]
  obtain pdf where all:
    "generate_report ''PRI'' five_indicators [] fails_on_third = Inr pdf \<and>
     pages pdf =
             map (\<lambda>ir. indicator_chart ''PRI'' (year_columns five_indicators)
                         (filter isdigit (year_columns five_indicators)) [] (snd ir))
                 (filter (gets_page fails_on_third ''PRI'' (year_columns five_indicators)
                            (filter isdigit (year_columns five_indicators)) [])
                         (enumerate 1 (rows five_indicators))) \<and>
     plot_errors (printed pdf) =
             concat (map (\<lambda>ir. if all_missing (year_values (year_columns five_indicators) (snd ir))
                               then []
                               else case fails_on_third (fst ir)
                                      (indicator_chart ''PRI'' (year_columns five_indicators)
                                         (filter isdigit (year_columns five_indicators)) []
                                         (snd ir)) of
                                      None \<Rightarrow> []
                                    | Some e \<Rightarrow> [(Indicator_Name (snd ir), e)])
                         (enumerate 1 (rows five_indicators)))" ..
  note ret = all [THEN conjunct1]
    and pg = all [THEN conjunct2, THEN conjunct1]
    and er = all [THEN conjunct2, THEN conjunct2]
  have titles:
    "map chart_title (pages pdf) = [''PRI: One'', ''PRI: Two'', ''PRI: Four'', ''PRI: Five'']"
    unfolding pg
    by (simp add: five_indicators_def fails_on_third_def isdigit_def gets_page_def
        all_missing_def year_values_def indicator_chart_def)
  have errors: "plot_errors (printed pdf) = [(''Three'', ValueError)]"
    unfolding er
    by (simp add: five_indicators_def fails_on_third_def isdigit_def
        all_missing_def year_values_def)
  show ?thesis
    by (rule exI [of _ pdf]) (intro conjI ret titles errors)
qed

section \<open>Properties of the extraction\<close>

lemma fetch_batches_kept:
  "fst (fetch_batches env cc batches (batch_dfs, failed)) = batch_dfs @ kept_frames env cc batches"
  by (induction batches arbitrary: batch_dfs failed)
     (simp_all add: kept_frames_def split: sum.splits)

lemma fetch_batches_failed:
  "snd (fetch_batches env cc batches (batch_dfs, failed)) =
     failed @ filter (\<lambda>batch. isl (data_DataFrame env batch cc)) batches"
  by (induction batches arbitrary: batch_dfs failed)
     (simp_all split: sum.splits)

lemma pipeline_needs_table:
  "extract_development_data env ''PRI'' = Inr None \<Longrightarrow> pipeline env = Pipeline_failed"
  by (simp add: pipeline_def split: sum.splits)

text \<open>
  Claim C8. A batch succeeds when its fetch returns a frame that is not empty. When
  the list of indicators and the country were found, a batch whose fetch raises is
  recorded as failed and has no other effect: the loop keeps the frames of the
  successful batches in order, and when there is at least one of them the function goes
  on to combine exactly these and returns what the combination returns. When no batch
  succeeds the function returns \<open>None\<close> in place of a table, and the run of the
  pipeline then fails: \<open>transform_development_data\<close> raises on \<open>None\<close>.
\<close>

theorem extract_development_data_skips_failed_batches:
  assumes "series_list env = Inr indicators"
    and "economy_get env country_code = Inr country_name"
  shows "snd (fetch_batches env country_code (indicator_batches indicators) ([], [])) =
           filter (\<lambda>batch. isl (data_DataFrame env batch country_code))
                  (indicator_batches indicators) \<and>
         (kept_frames env country_code (indicator_batches indicators) \<noteq> [] \<longrightarrow>
            extract_development_data env country_code =
              map_sum id Some
                (combine env (kept_frames env country_code (indicator_batches indicators))
                   country_name country_code indicators)) \<and>
         (kept_frames env country_code (indicator_batches indicators) = [] \<longrightarrow>
            extract_development_data env country_code = Inr None \<and>
            (country_code = ''PRI'' \<longrightarrow> pipeline env = Pipeline_failed))"
proof -
  have kept: "fst (fetch_batches env country_code (indicator_batches indicators) ([], [])) =
      kept_frames env country_code (indicator_batches indicators)"
    by (simp add: fetch_batches_kept)
  have ex: "extract_development_data env country_code =
      (if kept_frames env country_code (indicator_batches indicators) = [] then Inr None
       else map_sum id Some
              (combine env (kept_frames env country_code (indicator_batches indicators))
                 country_name country_code indicators))"
    using assms kept
    by (simp add: extract_development_data_def split_beta split: sum.splits)
  show ?thesis
    using ex pipeline_needs_table [of env] by (auto simp: fetch_batches_failed)
qed

lemma example_indicator_batches:
  "indicator_batches (map (\<lambda>k. (str_nat k, ''Indicator '' @ str_nat k)) [0..<101]) =
     [map str_nat [0..<100], [''100'']]"
  by code_simp

lemma example_all_fail_kept:
  "kept_frames (example_environment True) ''PRI'' [map str_nat [0..<100], [''100'']] = []"
  by (simp add: kept_frames_def example_environment_def)

lemma example_one_fails_failed:
  "filter (\<lambda>batch. isl (data_DataFrame (example_environment False) batch ''PRI''))
     [map str_nat [0..<100], [''100'']] = [map str_nat [0..<100]]"
  by (simp add: example_environment_def batch_size_def)

lemma year_labels_2007_2023:
  "year_labels 2007 2023 =
     [''2007'', ''2008'', ''2009'', ''2010'', ''2011'', ''2012'', ''2013'', ''2014'', ''2015'',
      ''2016'', ''2017'', ''2018'', ''2019'', ''2020'', ''2021'', ''2022'', ''2023'']"
  by (simp add: year_labels_def str_int_def str_nat.simps digit_char_def upto.simps)

lemma example_one_fails_kept:
  "kept_frames (example_environment False) ''PRI'' [map str_nat [0..<100], [''100'']] =
     [\<lparr>time_index = map (\<lambda>y. ''YR'' @ y) (year_labels 2007 2023), series = [''100''],
       wb_values = map (\<lambda>y. [Some 1]) (year_labels 2007 2023)\<rparr>]"
proof -
  have "year_labels 2007 2023 \<noteq> []"
    by (simp add: year_labels_2007_2023)
  then show ?thesis
    by (simp add: kept_frames_def example_environment_def batch_size_def frame_empty_def)
qed

lemma example_extracted_transformed:
  "transform_development_data exact_arithmetic ''PRI'' (Some example_extracted) 2007 2023 =
     Inr \<lparr>year_columns = year_labels 2007 2023,
          rows = [\<lparr>Country_Code = ''PRI'', Indicator_Name = ''Indicator 100'',
                   years = map (\<lambda>t. Some 1) (year_labels 2007 2023)\<rparr>]\<rparr>"
  by (simp add: example_extracted_def year_labels_2007_2023 loc_columns_def
      density_filter_def set_NaN_count_def filter_NaN_count_def drop_NaN_count_def isna_sum_def
      drop_all_zero_def all_zero_def resolve_gaps_def isna_any_def)

lemma generate_report_returns:
  "filter isdigit (year_columns dev_data) \<noteq> [] \<Longrightarrow>
     \<exists>pdf. generate_report country_code dev_data dis_data drw = Inr pdf"
  by (simp add: generate_report_def Let_def)

theorem extract_development_data_skips_failed_batches_witness:
  "snd (fetch_batches (example_environment False) ''PRI''
          [map str_nat [0..<100], [''100'']] ([], [])) = [map str_nat [0..<100]] \<and>
   extract_development_data (example_environment False) ''PRI'' = Inr (Some example_extracted) \<and>
   pipeline (example_environment False) = Pipeline_succeeded \<and>
   extract_development_data (example_environment True) ''PRI'' = Inr None \<and>
   pipeline (example_environment True) = Pipeline_failed"
proof -
  let ?inds = "map (\<lambda>k. (str_nat k, ''Indicator '' @ str_nat k)) [0..<101]"
  have s: "series_list (example_environment b) = Inr ?inds"
    and e: "economy_get (example_environment b) ''PRI'' = Inr ''Puerto Rico''" for b
    by (simp_all add: example_environment_def)
  note one = extract_development_data_skips_failed_batches
    [OF s [of False] e [of False], unfolded example_indicator_batches]
  note none = extract_development_data_skips_failed_batches
    [OF s [of True] e [of True], unfolded example_indicator_batches]
  have failed: "snd (fetch_batches (example_environment False) ''PRI''
          [map str_nat [0..<100], [''100'']] ([], [])) = [map str_nat [0..<100]]"
    using one [THEN conjunct1] by (simp only: example_one_fails_failed)
  have "combine (example_environment False)
          [\<lparr>time_index = map (\<lambda>y. ''YR'' @ y) (year_labels 2007 2023), series = [''100''],
            wb_values = map (\<lambda>y. [Some 1]) (year_labels 2007 2023)\<rparr>]
          ''Puerto Rico'' ''PRI'' ?inds = Inr example_extracted"
    by (simp add: example_environment_def example_extracted_def comp_def)
  with one [THEN conjunct2, THEN conjunct1]
  have extracted:
    "extract_development_data (example_environment False) ''PRI'' = Inr (Some example_extracted)"
    by (simp add: example_one_fails_kept)
  have "filter isdigit (year_labels 2007 2023) \<noteq> []"
    by (simp add: year_labels_2007_2023 isdigit_def)
  then obtain pdf where gen:
    "generate_report ''PRI''
       \<lparr>year_columns = year_labels 2007 2023,
        rows = [\<lparr>Country_Code = ''PRI'', Indicator_Name = ''Indicator 100'',
                 years = map (\<lambda>t. Some 1) (year_labels 2007 2023)\<rparr>]\<rparr>
       (transform_disaster_data ''PRI'' [example_event 500000] 2007 2023 500000)
       (\<lambda>i c. None) = Inr pdf"
    using generate_report_returns
      [of "\<lparr>year_columns = year_labels 2007 2023,
        rows = [\<lparr>Country_Code = ''PRI'', Indicator_Name = ''Indicator 100'',
                 years = map (\<lambda>t. Some 1) (year_labels 2007 2023)\<rparr>]\<rparr>"]
    by fastforce
  have dis: "extract_disaster_data (example_environment False) ''PRI'' =
      Inr [example_event 500000]"
    by (simp add: extract_disaster_data_def example_environment_def example_event_def)
  have drw: "draw_page (example_environment False) = (\<lambda>i c. None)"
    by (simp add: example_environment_def)
  have rnd: "float64_round (example_environment False) = exact_arithmetic"
    by (simp add: example_environment_def)
  have succeeded: "pipeline (example_environment False) = Pipeline_succeeded"
    by (simp add: pipeline_def extracted dis rnd example_extracted_transformed drw gen
        del: transform_development_data.simps)
  have no_table: "extract_development_data (example_environment True) ''PRI'' = Inr None \<and>
      pipeline (example_environment True) = Pipeline_failed"
    using none [THEN conjunct2, THEN conjunct2] example_all_fail_kept by simp
  from failed extracted succeeded no_table show ?thesis
    by (elim conjE) (intro conjI, assumption+)
qed

end
